theory Spec2Isabelle
  imports Main "HOL-Library.Log_Nat" "HOL-Library.Multiset"
begin

section \<open>The database models (services/database.ts)\<close>

text \<open>
  The interfaces of \<^verbatim>\<open>database.ts\<close> as records. Field names carry a one-letter prefix
  because several interfaces share names (\<^verbatim>\<open>id\<close>, \<^verbatim>\<open>moduleId\<close>, \<^verbatim>\<open>completed\<close>).
  A row read from a table always carries its auto-incremented key, so \<^verbatim>\<open>id\<close> is a
  plain number on stored rows; the rows handed to \<^verbatim>\<open>bulkAdd\<close> have none
  (\<^verbatim>\<open>Omit<Quiz, 'id'>\<close>), which is why the quiz key alone is optional here.
  Counters are integers in the range where JavaScript numbers are exact.
  The optional fields \<^verbatim>\<open>audioUrl\<close>, \<^verbatim>\<open>examples\<close> and \<^verbatim>\<open>difficulty\<close> of a vocabulary row are
  read by none of the functions below and are left out.

  A \<^verbatim>\<open>Date\<close> is kept as its time value, the number of milliseconds since
  1970-01-01T00:00:00Z that \<^verbatim>\<open>getTime()\<close> returns. The review ordering reads that number
  directly; the streak reads the local calendar getters, which are computed from it
  (section on JavaScript dates below).
\<close>

type_synonym Date = int

record Vocabulary =
  v_id :: nat
  portuguese :: string
  french :: string
  learned :: bool
  lastReviewed :: "Date option"
  reviewCount :: nat
  v_moduleId :: nat

record Module =
  m_id :: nat
  title :: string
  description :: string
  level :: string
  theme :: string
  order :: int
  m_completed :: bool
  progress :: int
  wordCount :: nat

record UserProgress =
  u_id :: nat
  totalLearned :: int
  totalReviewed :: int
  lastStudyDate :: "Date option"
  totalStudyTime :: int
  streakDays :: int
  currentModule :: "nat option"

record Quiz =
  q_id :: "nat option"
  q_moduleId :: nat
  q_type :: string
  question :: string
  options :: "string list option"
  answer :: string
  q_completed :: bool

text \<open>
  The Dexie database: four tables, each a list of rows in key order. The quiz table
  has an auto-increment key (\<^verbatim>\<open>++id\<close>); \<open>nextQuizId\<close> is its key generator.
  Table operations are modelled by what Dexie does and always succeed:
  \<^verbatim>\<open>update(key, changes)\<close> changes the row with that key, if there is one;
  \<^verbatim>\<open>where\<close> is described with the criteria it is given, further down.
\<close>

record db =
  vocabulary :: "Vocabulary list"
  modules :: "Module list"
  userProgress :: "UserProgress list"
  quizzes :: "Quiz list"
  nextQuizId :: nat

definition modules_table_update :: "nat \<Rightarrow> (Module \<Rightarrow> Module) \<Rightarrow> Module list \<Rightarrow> Module list" where
  "modules_table_update k changes rows = map (\<lambda>r. if m_id r = k then changes r else r) rows"

definition userProgress_table_update ::
  "nat \<Rightarrow> (UserProgress \<Rightarrow> UserProgress) \<Rightarrow> UserProgress list \<Rightarrow> UserProgress list" where
  "userProgress_table_update k changes rows = map (\<lambda>r. if u_id r = k then changes r else r) rows"

section \<open>JavaScript numbers\<close>

text \<open>
  \<^verbatim>\<open>Math.round((learnedWords / totalWords) * 100)\<close> is computed on IEEE 754 binary64
  values: the quotient is rounded to the nearest double, the product is rounded again,
  and \<^verbatim>\<open>Math.round\<close> takes the result to the nearest integer, halves going up.
  \<open>fl\<close> rounds a non-negative rational to the nearest double (53 significant bits,
  ties to even) in the normal range, which is where every value met here lies.
\<close>

definition pow2 :: "int \<Rightarrow> rat" where
  "pow2 e = (if 0 \<le> e then 2 ^ nat e else 1 / 2 ^ nat (- e))"

definition roundTiesToEven :: "rat \<Rightarrow> int" where
  "roundTiesToEven x =
     (let f = \<lfloor>x\<rfloor>; r = x - of_int f
      in if r < 1 / 2 then f else if 1 / 2 < r then f + 1 else if even f then f else f + 1)"

text \<open>The exponent \<open>e\<close> with \<open>2^e \<le> x < 2^(e+1)\<close>, for positive \<open>x\<close>.\<close>

definition binade :: "rat \<Rightarrow> int" where
  "binade x = (let (p, q) = quotient_of x; e = bitlen p - bitlen q
               in if pow2 e \<le> x then e else e - 1)"

definition fl :: "rat \<Rightarrow> rat" where
  "fl x = (if x = 0 then 0
           else let u = pow2 (binade x - 52) in of_int (roundTiesToEven (x / u)) * u)"

definition Math_round :: "rat \<Rightarrow> int" where
  "Math_round x = \<lfloor>x + 1 / 2\<rfloor>"

section \<open>Module progress (database.ts, updateModuleProgress)\<close>

definition count_where :: "('a \<Rightarrow> bool) \<Rightarrow> 'a list \<Rightarrow> nat" where
  "count_where P rows = length (filter P rows)"

definition computeProgress :: "nat \<Rightarrow> nat \<Rightarrow> int" where
  "computeProgress learnedWords totalWords =
     (if totalWords > 0
      then Math_round (fl (fl (of_nat learnedWords / of_nat totalWords) * 100))
      else 0)"

text \<open>
  The values that the criteria objects and the fields they name hold here, and Dexie's
  comparison of two of them. \<^verbatim>\<open>Table.where\<close> with a criteria object of one field is
  \<^verbatim>\<open>where(field).equals(value)\<close>, a lookup in the index of that field. With several fields
  and no compound index (the schema \<^verbatim>\<open>'++id, portuguese, french, moduleId, learned'\<close> has
  none) it looks the first field up in its index and keeps, of the rows found, those for
  which every other field passes
  \<^verbatim>\<open>equals(a, b) { try { return idb.cmp(a, b) === 0 } catch (e) { return false } }\<close>.
  \<^verbatim>\<open>indexedDB.cmp\<close> compares keys: a number and a string are keys, a boolean is not, and
  \<^verbatim>\<open>cmp\<close> throws a \<^verbatim>\<open>DataError\<close> when an argument is not a key, which \<^verbatim>\<open>equals\<close> turns
  into \<^verbatim>\<open>false\<close>.
\<close>

datatype idb_value = KNumber int | KString string | KBoolean bool

definition isKey :: "idb_value \<Rightarrow> bool" where
  "isKey v = (case v of KNumber n \<Rightarrow> True | KString s \<Rightarrow> True | KBoolean b \<Rightarrow> False)"

text \<open>\<open>None\<close> is the \<^verbatim>\<open>DataError\<close>; of the order of two keys only equality is read here.\<close>

definition idb_cmp_is_0 :: "idb_value \<Rightarrow> idb_value \<Rightarrow> bool option" where
  "idb_cmp_is_0 a b = (if isKey a \<and> isKey b then Some (a = b) else None)"

definition dexie_equals :: "idb_value \<Rightarrow> idb_value \<Rightarrow> bool" where
  "dexie_equals a b = (case idb_cmp_is_0 a b of Some r \<Rightarrow> r | None \<Rightarrow> False)"

text \<open>
  The two criteria objects \<^verbatim>\<open>{ moduleId }\<close> and \<^verbatim>\<open>{ moduleId, learned: true }\<close>: the first
  is the lookup of the number \<^verbatim>\<open>moduleId\<close> in its index; the second is that lookup
  followed by the filter \<^verbatim>\<open>equals(true, row.learned)\<close>.
\<close>

definition inModule :: "nat \<Rightarrow> Vocabulary \<Rightarrow> bool" where
  "inModule moduleId v = (v_moduleId v = moduleId)"

definition learnedInModule :: "nat \<Rightarrow> Vocabulary \<Rightarrow> bool" where
  "learnedInModule moduleId v =
     (v_moduleId v = moduleId \<and> dexie_equals (KBoolean True) (KBoolean (learned v)))"

definition updateModuleProgress :: "nat \<Rightarrow> db \<Rightarrow> db" where
  "updateModuleProgress moduleId d =
     (let totalWords = count_where (inModule moduleId) (vocabulary d);
          learnedWords = count_where (learnedInModule moduleId) (vocabulary d);
          progress' = computeProgress learnedWords totalWords;
          completed' = (progress' = 100)
      in d\<lparr>modules := modules_table_update moduleId
                 (\<lambda>r. r\<lparr>progress := progress', m_completed := completed'\<rparr>) (modules d)\<rparr>)"

section \<open>JavaScript dates\<close>

text \<open>
  The getters \<^verbatim>\<open>getFullYear\<close>, \<^verbatim>\<open>getMonth\<close>, \<^verbatim>\<open>getDate\<close> and the setter \<^verbatim>\<open>setDate\<close> work in
  local time, as ECMAScript defines them. The calendar is read from a time value by
  \<open>Day\<close>, \<open>YearFromTime\<close>, \<open>MonthFromTime\<close> and \<open>DateFromTime\<close> (months count from 0), and
  \<open>MakeDay\<close> and \<open>MakeDate\<close> build a time value from calendar fields, a day of the month
  below 1 or above the month's length running into the neighbouring month.
  \<open>YearFromTime\<close> is the year \<open>y\<close> with \<open>DayFromYear y \<le> Day t < DayFromYear (y + 1)\<close>, found
  next to the estimate that the mean length of a year gives.
\<close>

definition msPerDay :: int where
  "msPerDay = 86400000"

definition Day :: "int \<Rightarrow> int" where
  "Day t = t div msPerDay"

definition TimeWithinDay :: "int \<Rightarrow> int" where
  "TimeWithinDay t = t mod msPerDay"

definition DaysInYear :: "int \<Rightarrow> int" where
  "DaysInYear y =
     (if y mod 4 \<noteq> 0 then 365 else if y mod 100 \<noteq> 0 then 366
      else if y mod 400 \<noteq> 0 then 365 else 366)"

definition DayFromYear :: "int \<Rightarrow> int" where
  "DayFromYear y =
     365 * (y - 1970) + (y - 1969) div 4 - (y - 1901) div 100 + (y - 1601) div 400"

definition YearFromTime :: "int \<Rightarrow> int" where
  "YearFromTime t =
     (let n = Day t; y = 1970 + (n * 400) div 146097
      in if DayFromYear (y + 1) \<le> n then y + 1 else if DayFromYear y \<le> n then y else y - 1)"

definition InLeapYear :: "int \<Rightarrow> int" where
  "InLeapYear t = (if DaysInYear (YearFromTime t) = 366 then 1 else 0)"

definition DayWithinYear :: "int \<Rightarrow> int" where
  "DayWithinYear t = Day t - DayFromYear (YearFromTime t)"

text \<open>
  The month and the day of the month of day \<open>d\<close> of a year (\<open>d\<close> counts from 0), \<open>l\<close> being
  1 in a leap year and 0 otherwise: the tables of \<^verbatim>\<open>MonthFromTime\<close> and \<^verbatim>\<open>DateFromTime\<close>.
\<close>

definition monthOfYearDay :: "int \<Rightarrow> int \<Rightarrow> int" where
  "monthOfYearDay d l =
     (if d < 31 then 0 else if d < 59 + l then 1 else if d < 90 + l then 2
      else if d < 120 + l then 3 else if d < 151 + l then 4 else if d < 181 + l then 5
      else if d < 212 + l then 6 else if d < 243 + l then 7 else if d < 273 + l then 8
      else if d < 304 + l then 9 else if d < 334 + l then 10 else 11)"

definition dateOfYearDay :: "int \<Rightarrow> int \<Rightarrow> int" where
  "dateOfYearDay d l =
     (let m = monthOfYearDay d l
      in if m = 0 then d + 1 else if m = 1 then d - 30 else if m = 2 then d - 58 - l
         else if m = 3 then d - 89 - l else if m = 4 then d - 119 - l
         else if m = 5 then d - 150 - l else if m = 6 then d - 180 - l
         else if m = 7 then d - 211 - l else if m = 8 then d - 242 - l
         else if m = 9 then d - 272 - l else if m = 10 then d - 303 - l else d - 333 - l)"

definition MonthFromTime :: "int \<Rightarrow> int" where
  "MonthFromTime t = monthOfYearDay (DayWithinYear t) (InLeapYear t)"

definition DateFromTime :: "int \<Rightarrow> int" where
  "DateFromTime t = dateOfYearDay (DayWithinYear t) (InLeapYear t)"

text \<open>The number of the day on which month \<open>mn\<close> of year \<open>ym\<close> begins, and \<open>MakeDay\<close>.\<close>

definition firstOfMonth :: "int \<Rightarrow> int \<Rightarrow> int" where
  "firstOfMonth ym mn =
     (let l = (if DaysInYear ym = 366 then 1 else 0)
      in DayFromYear ym +
         (if mn = 0 then 0 else if mn = 1 then 31 else if mn = 2 then 59 + l
          else if mn = 3 then 90 + l else if mn = 4 then 120 + l else if mn = 5 then 151 + l
          else if mn = 6 then 181 + l else if mn = 7 then 212 + l else if mn = 8 then 243 + l
          else if mn = 9 then 273 + l else if mn = 10 then 304 + l else 334 + l))"

definition MakeDay :: "int \<Rightarrow> int \<Rightarrow> int \<Rightarrow> int" where
  "MakeDay year month date =
     (let ym = year + month div 12; mn = month mod 12
      in firstOfMonth ym mn + date - 1)"

definition MakeDate :: "int \<Rightarrow> int \<Rightarrow> int" where
  "MakeDate day time = day * msPerDay + time"

text \<open>
  The time zone is the runtime's. It enters through the two offsets that ECMAScript
  calls \<^verbatim>\<open>LocalTZA(t, true)\<close>, the offset in force at the time value \<open>t\<close>, and
  \<^verbatim>\<open>LocalTZA(t, false)\<close>, the offset with which the local time \<open>t\<close> is read; a local time
  that a forward change of the offset skips is read with the offset before the change.
\<close>

record zone =
  offsetOfUTC :: "int \<Rightarrow> int"
  offsetOfLocal :: "int \<Rightarrow> int"

definition LocalTime :: "zone \<Rightarrow> int \<Rightarrow> int" where
  "LocalTime z t = t + offsetOfUTC z t"

definition UTC :: "zone \<Rightarrow> int \<Rightarrow> int" where
  "UTC z t = t - offsetOfLocal z t"

definition getFullYear :: "zone \<Rightarrow> Date \<Rightarrow> int" where
  "getFullYear z d = YearFromTime (LocalTime z d)"

definition getMonth :: "zone \<Rightarrow> Date \<Rightarrow> int" where
  "getMonth z d = MonthFromTime (LocalTime z d)"

definition getDate :: "zone \<Rightarrow> Date \<Rightarrow> int" where
  "getDate z d = DateFromTime (LocalTime z d)"

definition setDate :: "zone \<Rightarrow> Date \<Rightarrow> int \<Rightarrow> Date" where
  "setDate z d dt =
     (let t = LocalTime z d;
          newDate = MakeDate (MakeDay (YearFromTime t) (MonthFromTime t) dt) (TimeWithinDay t)
      in UTC z newDate)"

section \<open>Study streak (database.ts, incrementStreakDays)\<close>

definition isLastStudyYesterday :: "zone \<Rightarrow> Date \<Rightarrow> Date \<Rightarrow> bool" where
  "isLastStudyYesterday z lastStudy yesterday =
     (getDate z lastStudy = getDate z yesterday \<and>
      getMonth z lastStudy = getMonth z yesterday \<and>
      getFullYear z lastStudy = getFullYear z yesterday)"

text \<open>
  The function reads the clock twice: \<open>clock1\<close> is the value of the \<^verbatim>\<open>new Date()\<close> that
  becomes \<^verbatim>\<open>today\<close>, and \<open>clock2\<close>, not before it, the value of the \<^verbatim>\<open>new Date()\<close> from
  which \<^verbatim>\<open>yesterday\<close> is computed by \<^verbatim>\<open>setDate(getDate() - 1)\<close>. \<open>z\<close> is the zone of the
  runtime.
\<close>

definition incrementStreakDays :: "zone \<Rightarrow> Date \<Rightarrow> Date \<Rightarrow> db \<Rightarrow> db" where
  "incrementStreakDays z clock1 clock2 d =
     (case userProgress d of
        [] \<Rightarrow> d
      | progress0 # _ \<Rightarrow>
          let today = clock1;
              stampOnly = d\<lparr>userProgress := userProgress_table_update (u_id progress0)
                            (\<lambda>r. r\<lparr>lastStudyDate := Some today\<rparr>) (userProgress d)\<rparr>
          in (case lastStudyDate progress0 of
                None \<Rightarrow> stampOnly
              | Some lastStudy \<Rightarrow>
                  let yesterday = setDate z clock2 (getDate z clock2 - 1)
                  in if isLastStudyYesterday z lastStudy yesterday
                     then d\<lparr>userProgress := userProgress_table_update (u_id progress0)
                            (\<lambda>r. r\<lparr>streakDays := streakDays progress0 + 1,
                                   lastStudyDate := Some today\<rparr>) (userProgress d)\<rparr>
                     else stampOnly))"

section \<open>Review queue (vocabularyStore, getNextWordsToReview)\<close>

text \<open>
  The comparison function handed to \<^verbatim>\<open>sort\<close>. It answers \<open>-1\<close> whenever its first argument
  was never reviewed, also against another word never reviewed and against itself, so it
  is not a consistent comparison when such a word is present, and the order which
  \<^verbatim>\<open>Array.prototype.sort\<close> then returns is left to the engine by the language.
  \<open>engineSort\<close> stands for the engine's \<^verbatim>\<open>sort\<close>.
\<close>

definition reviewCompare :: "Vocabulary \<Rightarrow> Vocabulary \<Rightarrow> int" where
  "reviewCompare a b =
     (case lastReviewed a of
        None \<Rightarrow> - 1
      | Some ta \<Rightarrow> (case lastReviewed b of None \<Rightarrow> 1 | Some tb \<Rightarrow> ta - tb))"

definition slice0 :: "nat \<Rightarrow> 'a list \<Rightarrow> 'a list" where
  "slice0 n xs = take n xs"

definition getNextWordsToReview ::
  "((Vocabulary \<Rightarrow> Vocabulary \<Rightarrow> int) \<Rightarrow> Vocabulary list \<Rightarrow> Vocabulary list) \<Rightarrow>
   Vocabulary list \<Rightarrow> Vocabulary list" where
  "getNextWordsToReview engineSort vocabularyItems =
     slice0 10 (engineSort reviewCompare (filter learned vocabularyItems))"

section \<open>The stores\<close>

record vocabularyStore =
  vocabularyItems :: "Vocabulary list"
  currentModuleVocabulary :: "Vocabulary list"
  vs_loading :: bool
  vs_error :: "string option"

record quizStore =
  qs_quizzes :: "Quiz list"
  currentQuiz :: "Quiz option"
  currentQuizIndex :: nat
  quizResults :: "(nat \<times> bool) list"
  qs_loading :: bool
  qs_error :: "string option"

record moduleStore =
  ms_modules :: "Module list"
  ms_currentModule :: "Module option"
  ms_loading :: bool
  ms_error :: "string option"

record app =
  database :: db
  vocabularyS :: vocabularyStore
  quizS :: quizStore
  moduleS :: moduleStore

datatype js_error = TypeError

text \<open>Reading \<^verbatim>\<open>xs[i]\<close>: \<open>None\<close> is JavaScript's \<^verbatim>\<open>undefined\<close>.\<close>

definition at_index :: "'a list \<Rightarrow> nat \<Rightarrow> 'a option" where
  "at_index xs i = (if i < length xs then Some (xs ! i) else None)"

section \<open>Module store (moduleStore)\<close>

definition getModuleById :: "moduleStore \<Rightarrow> nat \<Rightarrow> Module option" where
  "getModuleById st ident = find (\<lambda>m. m_id m = ident) (ms_modules st)"

text \<open>
  \<^verbatim>\<open>findIndex\<close> followed by the assignment to \<^verbatim>\<open>this.modules[index]\<close>: the first entry
  with the key is replaced, and nothing happens when there is none.
\<close>

fun replace_first :: "('a \<Rightarrow> bool) \<Rightarrow> ('a \<Rightarrow> 'a) \<Rightarrow> 'a list \<Rightarrow> 'a list" where
  "replace_first P f [] = []"
| "replace_first P f (x # xs) = (if P x then f x # xs else x # replace_first P f xs)"

definition updateModule :: "nat \<Rightarrow> (Module \<Rightarrow> Module) \<Rightarrow> app \<Rightarrow> app" where
  "updateModule ident data s =
     s\<lparr>database := (database s)\<lparr>modules := modules_table_update ident data (modules (database s))\<rparr>,
       moduleS := (moduleS s)\<lparr>ms_modules :=
                    replace_first (\<lambda>m. m_id m = ident) data (ms_modules (moduleS s))\<rparr>\<rparr>"

definition fetchModules :: "app \<Rightarrow> app" where
  "fetchModules s =
     s\<lparr>moduleS := (moduleS s)\<lparr>ms_loading := False, ms_error := None,
                               ms_modules := modules (database s)\<rparr>\<rparr>"

definition updateProgress :: "nat \<Rightarrow> app \<Rightarrow> app" where
  "updateProgress moduleId s =
     fetchModules (s\<lparr>database := updateModuleProgress moduleId (database s)\<rparr>)"

section \<open>Quiz store (quizStore)\<close>

definition fetchVocabularyByModule :: "nat \<Rightarrow> app \<Rightarrow> app" where
  "fetchVocabularyByModule moduleId s =
     s\<lparr>vocabularyS := (vocabularyS s)\<lparr>vs_loading := False, vs_error := None,
          currentModuleVocabulary := filter (inModule moduleId) (vocabulary (database s))\<rparr>\<rparr>"

definition resetQuiz :: "quizStore \<Rightarrow> quizStore" where
  "resetQuiz st =
     st\<lparr>currentQuizIndex := 0, quizResults := [],
        currentQuiz := (if length (qs_quizzes st) > 0 then Some (hd (qs_quizzes st)) else None)\<rparr>"

definition ofModule :: "nat \<Rightarrow> Quiz \<Rightarrow> bool" where
  "ofModule moduleId q = (q_moduleId q = moduleId)"

definition fetchQuizzesByModule :: "nat \<Rightarrow> app \<Rightarrow> app" where
  "fetchQuizzesByModule moduleId s =
     s\<lparr>quizS := (resetQuiz ((quizS s)\<lparr>qs_error := None,
                    qs_quizzes := filter (ofModule moduleId) (quizzes (database s))\<rparr>))
                 \<lparr>qs_loading := False\<rparr>\<rparr>"

text \<open>\<^verbatim>\<open>db.quizzes.where('moduleId').equals(moduleId).delete()\<close>.\<close>

definition deleteQuizzesOfModule :: "nat \<Rightarrow> db \<Rightarrow> db" where
  "deleteQuizzesOfModule moduleId d =
     d\<lparr>quizzes := filter (\<lambda>q. \<not> ofModule moduleId q) (quizzes d)\<rparr>"

text \<open>
  \<^verbatim>\<open>bulkAdd\<close>: every new row gets the next key of the generator, and the call
  resolves to the key of the last row (to \<^verbatim>\<open>undefined\<close>, here \<open>None\<close>, when there is no row).
  \<open>stamp\<close> writes a key into a row.
\<close>

definition stamp :: "nat \<times> Quiz \<Rightarrow> Quiz" where
  "stamp kr = (snd kr)\<lparr>q_id := Some (fst kr)\<rparr>"

definition bulkAdd :: "Quiz list \<Rightarrow> db \<Rightarrow> nat option \<times> db" where
  "bulkAdd rows d =
     (let keys = [nextQuizId d ..< nextQuizId d + length rows]
      in (if rows = [] then None else Some (last keys),
          d\<lparr>quizzes := quizzes d @ map stamp (zip keys rows),
            nextQuizId := nextQuizId d + length rows\<rparr>))"

subsection \<open>The random source\<close>

text \<open>
  \<^verbatim>\<open>.sort(() => 0.5 - Math.random())\<close> puts the array in an order that the random draws
  decide. The draws of one such call are a list of numbers, each of which picks the
  next element among those left; every order of the array comes from some list.
  \<open>rnd k\<close> is the list for the \<open>k\<close>-th call made while a quiz is generated.
\<close>

fun shuffle_by :: "nat list \<Rightarrow> 'a list \<Rightarrow> 'a list" where
  "shuffle_by [] xs = xs"
| "shuffle_by (k # ks) xs =
     (if xs = [] then []
      else let i = k mod length xs
           in xs ! i # shuffle_by ks (take i xs @ drop (Suc i) xs))"

subsection \<open>generateQuizForModule\<close>

text \<open>A \<^verbatim>\<open>for\<close> loop that pushes one question per index; a raise in the body ends it.\<close>

fun for_push :: "(nat \<Rightarrow> js_error + Quiz) \<Rightarrow> nat list \<Rightarrow> Quiz list \<Rightarrow> js_error + Quiz list" where
  "for_push body [] newQuizzes = Inr newQuizzes"
| "for_push body (i # is) newQuizzes =
     (case body i of
        Inl e \<Rightarrow> Inl e
      | Inr q \<Rightarrow> for_push body is (newQuizzes @ [q]))"

definition incorrectItems :: "(nat \<Rightarrow> nat list) \<Rightarrow> Vocabulary list \<Rightarrow> nat \<Rightarrow> Vocabulary \<Rightarrow> Vocabulary list" where
  "incorrectItems rnd vocab i correctItem =
     slice0 3 (shuffle_by (rnd (2 * i)) (filter (\<lambda>item. v_id item \<noteq> v_id correctItem) vocab))"

definition multipleChoice :: "(nat \<Rightarrow> nat list) \<Rightarrow> nat \<Rightarrow> Vocabulary list \<Rightarrow> nat \<Rightarrow> js_error + Quiz" where
  "multipleChoice rnd moduleId vocab i =
     (case at_index vocab i of
        None \<Rightarrow> Inl TypeError
      | Some correctItem \<Rightarrow>
          let incorrectOptions = map french (incorrectItems rnd vocab i correctItem);
              opts = shuffle_by (rnd (2 * i + 1)) (incorrectOptions @ [french correctItem])
          in Inr \<lparr>q_id = None, q_moduleId = moduleId, q_type = ''multiple-choice'',
                  question = ''Traduisez: '' @ portuguese correctItem,
                  options = Some opts, answer = french correctItem, q_completed = False\<rparr>)"

definition fillInBlank :: "nat \<Rightarrow> Vocabulary list \<Rightarrow> nat \<Rightarrow> js_error + Quiz" where
  "fillInBlank moduleId vocab i =
     (case at_index vocab (if i + 5 > length vocab then i else i + 5) of
        None \<Rightarrow> Inl TypeError
      | Some item \<Rightarrow>
          Inr \<lparr>q_id = None, q_moduleId = moduleId, q_type = ''fill-in-blank'',
               question = ''Compl'' @ [CHR 0xE9] @ ''tez: ___ ('' @ french item @ '')'',
               options = None, answer = portuguese item, q_completed = False\<rparr>)"

definition audioQuestion :: "nat \<Rightarrow> Vocabulary list \<Rightarrow> nat \<Rightarrow> js_error + Quiz" where
  "audioQuestion moduleId vocab i =
     (case at_index vocab (if i + 8 > length vocab then i else i + 8) of
        None \<Rightarrow> Inl TypeError
      | Some item \<Rightarrow>
          Inr \<lparr>q_id = None, q_moduleId = moduleId, q_type = ''audio'',
               question = [CHR 0xC9] @ ''coutez et '' @ [CHR 0xE9] @ ''crivez: (audio: ''
                          @ [CHR 0x22] @ portuguese item @ [CHR 0x22] @ '')'',
               options = None, answer = portuguese item, q_completed = False\<rparr>)"

definition newQuizzesFor :: "(nat \<Rightarrow> nat list) \<Rightarrow> nat \<Rightarrow> Vocabulary list \<Rightarrow> js_error + Quiz list" where
  "newQuizzesFor rnd moduleId vocab =
     (case for_push (multipleChoice rnd moduleId vocab) [0 ..< min (length vocab) 5] [] of
        Inl e \<Rightarrow> Inl e
      | Inr q1 \<Rightarrow>
          (case for_push (fillInBlank moduleId vocab) [0 ..< min (length vocab) 3] q1 of
             Inl e \<Rightarrow> Inl e
           | Inr q2 \<Rightarrow> for_push (audioQuestion moduleId vocab) [0 ..< min (length vocab) 2] q2))"

datatype generated = ReturnedFalse | ReturnedKey "nat option"

definition notEnough :: string where
  "notEnough = ''Not enough vocabulary items to generate a quiz''"

definition generateQuizForModule :: "(nat \<Rightarrow> nat list) \<Rightarrow> nat \<Rightarrow> app \<Rightarrow> (js_error + generated) \<times> app" where
  "generateQuizForModule rnd moduleId s =
     (let s1 = s\<lparr>database := deleteQuizzesOfModule moduleId (database s)\<rparr>;
          s2 = fetchVocabularyByModule moduleId s1;
          vocab = currentModuleVocabulary (vocabularyS s2)
      in if length vocab < 4
         then (Inr ReturnedFalse, s2\<lparr>quizS := (quizS s2)\<lparr>qs_error := Some notEnough\<rparr>\<rparr>)
         else (case newQuizzesFor rnd moduleId vocab of
                 Inl e \<Rightarrow> (Inl e, s2)
               | Inr newQuizzes \<Rightarrow>
                   let (ids, d3) = bulkAdd newQuizzes (database s2)
                   in (Inr (ReturnedKey ids), fetchQuizzesByModule moduleId (s2\<lparr>database := d3\<rparr>))))"

subsection \<open>completeQuiz\<close>

definition markCompleted :: "Module \<Rightarrow> Module" where
  "markCompleted m = m\<lparr>m_completed := True, progress := 100\<rparr>"

definition completeQuiz :: "nat \<Rightarrow> int \<Rightarrow> app \<Rightarrow> app" where
  "completeQuiz moduleId score s =
     (case getModuleById (moduleS s) moduleId of
        None \<Rightarrow> s
      | Some module0 \<Rightarrow> if score \<ge> 70 then updateModule moduleId markCompleted s else s)"

subsection \<open>submitAnswer\<close>

text \<open>
  \<^verbatim>\<open>toLowerCase\<close> on strings of code units below 256: the letters \<^verbatim>\<open>A\<close> to \<^verbatim>\<open>Z\<close> and the
  accented capitals from \<^verbatim>\<open>U+00C0\<close> to \<^verbatim>\<open>U+00DE\<close> (the sign \<^verbatim>\<open>U+00D7\<close> apart) go to the
  code unit 32 further; every other code unit stays.
\<close>

definition lowerChar :: "char \<Rightarrow> char" where
  "lowerChar c =
     (let n = (of_char c :: nat)
      in if (65 \<le> n \<and> n \<le> 90) \<or> (192 \<le> n \<and> n \<le> 222 \<and> n \<noteq> 215) then char_of (n + 32) else c)"

definition toLowerCase :: "string \<Rightarrow> string" where
  "toLowerCase s = map lowerChar s"

definition quizzes_table_update :: "nat \<Rightarrow> (Quiz \<Rightarrow> Quiz) \<Rightarrow> Quiz list \<Rightarrow> Quiz list" where
  "quizzes_table_update k changes rows =
     map (\<lambda>r. if q_id r = Some k then changes r else r) rows"

definition setCompleted :: "Quiz \<Rightarrow> Quiz" where
  "setCompleted q = q\<lparr>q_completed := True\<rparr>"

text \<open>The call returns \<^verbatim>\<open>isCorrect\<close>, or \<^verbatim>\<open>false\<close> when the store has no question with the key.\<close>

definition submitAnswer :: "nat \<Rightarrow> string \<Rightarrow> app \<Rightarrow> bool \<times> app" where
  "submitAnswer questionId ans s =
     (case find (\<lambda>q. q_id q = Some questionId) (qs_quizzes (quizS s)) of
        None \<Rightarrow> (False, s)
      | Some question0 \<Rightarrow>
          let isCorrect = (toLowerCase ans = toLowerCase (answer question0));
              s1 = s\<lparr>quizS := (quizS s)\<lparr>quizResults :=
                                 quizResults (quizS s) @ [(questionId, isCorrect)]\<rparr>\<rparr>
          in if isCorrect
             then (True,
                   s1\<lparr>database := (database s1)\<lparr>quizzes :=
                          quizzes_table_update questionId setCompleted (quizzes (database s1))\<rparr>,
                      quizS := (quizS s1)\<lparr>qs_quizzes :=
                          replace_first (\<lambda>q. q_id q = Some questionId) setCompleted
                            (qs_quizzes (quizS s1))\<rparr>\<rparr>)
             else (False, s1))"

section \<open>The quiz view (views/Quiz.vue)\<close>

text \<open>
  The refs of the view. \<open>questions\<close> is \<^verbatim>\<open>quiz.value.questions\<close>; it is \<open>None\<close> when the view
  has no quiz or its quiz has no such field, which is the case of the \<^verbatim>\<open>Quiz\<close> rows that
  the quiz store hands over. Of a question the script reads \<^verbatim>\<open>correctAnswer\<close> only, and
  that field is \<open>None\<close> on an object that lacks it.
\<close>

record viewQuestion =
  correctAnswer :: "string option"

record results =
  score :: int
  total :: nat
  correctAnswers :: nat
  incorrectAnswers :: nat
  completed :: bool

record quizView =
  questions :: "viewQuestion list option"
  currentQuestionIndex :: nat
  selectedAnswer :: "string option"
  isAnswerCorrect :: bool
  hasAnswered :: bool
  results :: results

text \<open>The computed \<^verbatim>\<open>currentQuestion\<close>: \<open>None\<close> is \<^verbatim>\<open>null\<close> or \<^verbatim>\<open>undefined\<close>.\<close>

definition currentQuestion :: "quizView \<Rightarrow> viewQuestion option" where
  "currentQuestion v =
     (case questions v of
        None \<Rightarrow> None
      | Some qs \<Rightarrow> at_index qs (currentQuestionIndex v))"

text \<open>
  \<open>selectAnswer\<close> returns the refs as the call leaves them, and the error it raised, if
  any: reading \<^verbatim>\<open>correctAnswer\<close> of a missing question raises, and so does the closing
  call of \<^verbatim>\<open>quizStore.updateQuizProgress\<close>, which the quiz store does not define; by then
  the refs have been written.
\<close>

definition selectAnswer :: "string \<Rightarrow> quizView \<Rightarrow> quizView \<times> js_error option" where
  "selectAnswer ans v =
     (if hasAnswered v then (v, None)
      else
        let v1 = v\<lparr>selectedAnswer := Some ans, hasAnswered := True\<rparr>
        in (case currentQuestion v1 of
              None \<Rightarrow> (v1, Some TypeError)
            | Some question0 \<Rightarrow>
                if correctAnswer question0 = Some ans
                then (v1\<lparr>isAnswerCorrect := True,
                         results := (results v1)\<lparr>correctAnswers := correctAnswers (results v1) + 1,
                                                score := score (results v1) + 10\<rparr>\<rparr>,
                      Some TypeError)
                else (v1\<lparr>isAnswerCorrect := False,
                         results := (results v1)\<lparr>incorrectAnswers := incorrectAnswers (results v1) + 1\<rparr>\<rparr>,
                      Some TypeError)))"

section \<open>Example data and notions used in the statements\<close>

definition word :: "nat \<Rightarrow> nat \<Rightarrow> string \<Rightarrow> string \<Rightarrow> bool \<Rightarrow> Vocabulary" where
  "word k m pt fr l = \<lparr>v_id = k, portuguese = pt, french = fr, learned = l,
                       lastReviewed = None, reviewCount = 0, v_moduleId = m\<rparr>"

definition module_row :: "nat \<Rightarrow> Module" where
  "module_row k = \<lparr>m_id = k, title = ''Maison'', description = [], level = ''A1'', theme = [],
                   order = 1, m_completed = False, progress = 0, wordCount = 0\<rparr>"

text \<open>The four words of the specification's end-to-end example, all in module 1.\<close>

definition four_words :: "bool \<Rightarrow> Vocabulary list" where
  "four_words l = [word 1 1 ''casa'' ''maison'' l, word 2 1 ''carro'' ''voiture'' l,
                   word 3 1 ''livro'' ''livre'' l, word 4 1 ''agua'' ''eau'' l]"

definition db_four :: "bool \<Rightarrow> db" where
  "db_four l = \<lparr>vocabulary = four_words l, modules = [module_row 1], userProgress = [],
                quizzes = [], nextQuizId = 1\<rparr>"

text \<open>
  Calendar days, to state the streak rule apart from the code: the local calendar day of
  a time value; the days that exist in the calendar; the order of days; and the day
  before a day, by the calendar (months count from 0).
\<close>

record calendarDay =
  cd_year :: int
  cd_month :: int
  cd_date :: int

definition localDay :: "zone \<Rightarrow> Date \<Rightarrow> calendarDay" where
  "localDay z d = \<lparr>cd_year = getFullYear z d, cd_month = getMonth z d, cd_date = getDate z d\<rparr>"

definition isLeapYear :: "int \<Rightarrow> bool" where
  "isLeapYear y = ((y mod 4 = 0 \<and> y mod 100 \<noteq> 0) \<or> y mod 400 = 0)"

definition daysInMonth :: "int \<Rightarrow> int \<Rightarrow> int" where
  "daysInMonth y m =
     (if m = 1 then (if isLeapYear y then 29 else 28)
      else if m = 3 \<or> m = 5 \<or> m = 8 \<or> m = 10 then 30 else 31)"

definition validDay :: "calendarDay \<Rightarrow> bool" where
  "validDay c =
     (0 \<le> cd_month c \<and> cd_month c < 12 \<and> 1 \<le> cd_date c \<and>
      cd_date c \<le> daysInMonth (cd_year c) (cd_month c))"

definition earlierDay :: "calendarDay \<Rightarrow> calendarDay \<Rightarrow> bool" where
  "earlierDay a b =
     (cd_year a < cd_year b \<or>
      (cd_year a = cd_year b \<and>
       (cd_month a < cd_month b \<or> (cd_month a = cd_month b \<and> cd_date a < cd_date b))))"

definition dayBefore :: "calendarDay \<Rightarrow> calendarDay" where
  "dayBefore c =
     (if 1 < cd_date c then \<lparr>cd_year = cd_year c, cd_month = cd_month c, cd_date = cd_date c - 1\<rparr>
      else if cd_month c = 0 then \<lparr>cd_year = cd_year c - 1, cd_month = 11, cd_date = 31\<rparr>
      else \<lparr>cd_year = cd_year c, cd_month = cd_month c - 1,
            cd_date = daysInMonth (cd_year c) (cd_month c - 1)\<rparr>)"

text \<open>
  Two zones. A zone with one offset throughout (offset 0 is UTC). And Pacific/Apia
  around the end of 2011: the offset was 10 hours behind UTC until
  2011-12-30T10:00:00Z, the end of 29 December there, and 14 hours ahead from then on,
  so that 30 December 2011 did not exist in local time.
\<close>

definition fixedZone :: "int \<Rightarrow> zone" where
  "fixedZone off = \<lparr>offsetOfUTC = (\<lambda>t. off), offsetOfLocal = (\<lambda>t. off)\<rparr>"

definition Pacific_Apia :: zone where
  "Pacific_Apia =
     \<lparr>offsetOfUTC = (\<lambda>t. if t < 1325239200000 then - 36000000 else 50400000),
      offsetOfLocal = (\<lambda>t. if t < 1325239200000 + 50400000 then - 36000000 else 50400000)\<rparr>"

text \<open>
  The time value of a calendar day and time of day in UTC (months count from 0), and a
  user-progress table of one row.
\<close>

definition instant :: "int \<Rightarrow> int \<Rightarrow> int \<Rightarrow> int \<Rightarrow> int \<Rightarrow> Date" where
  "instant y m d h mi = MakeDate (MakeDay y m d) ((h * 60 + mi) * 60000)"

definition user_row :: "Date option \<Rightarrow> int \<Rightarrow> UserProgress" where
  "user_row lsd n = \<lparr>u_id = 1, totalLearned = 0, totalReviewed = 0, lastStudyDate = lsd,
                     totalStudyTime = 0, streakDays = n, currentModule = None\<rparr>"

definition db_user :: "Date option \<Rightarrow> int \<Rightarrow> db" where
  "db_user lsd n = \<lparr>vocabulary = [], modules = [], userProgress = [user_row lsd n],
                    quizzes = [], nextQuizId = 1\<rparr>"

text \<open>Five words: four learned, of which two were never reviewed.\<close>

definition reviewed_word :: "nat \<Rightarrow> bool \<Rightarrow> int option \<Rightarrow> Vocabulary" where
  "reviewed_word k l t = \<lparr>v_id = k, portuguese = ''casa'', french = ''maison'', learned = l,
                          lastReviewed = t, reviewCount = 0, v_moduleId = 1\<rparr>"

definition review_items :: "Vocabulary list" where
  "review_items = [reviewed_word 1 True (Some 50), reviewed_word 2 False None,
                   reviewed_word 3 True None, reviewed_word 4 True (Some 20),
                   reviewed_word 5 True None]"

text \<open>Twelve learned words, word \<open>k\<close> last reviewed at time \<open>12 - k\<close>.\<close>

definition twelve_items :: "Vocabulary list" where
  "twelve_items = map (\<lambda>k. reviewed_word k True (Some (12 - int k))) [0 ..< 12]"

text \<open>
  What is asked of the engine's \<^verbatim>\<open>sort\<close>: \<open>ys\<close> holds the elements of \<open>xs\<close>, each as often,
  in an order in which no element compares greater than a later one.
\<close>

definition ordersBy :: "('a \<Rightarrow> 'a \<Rightarrow> int) \<Rightarrow> 'a list \<Rightarrow> 'a list \<Rightarrow> bool" where
  "ordersBy cmp xs ys = (mset ys = mset xs \<and> sorted_wrt (\<lambda>a b. cmp a b \<le> 0) ys)"

text \<open>
  One engine: an insertion sort that takes the elements in turn and puts each before
  the first element it does not compare greater than.
\<close>

fun sort_insert :: "('a \<Rightarrow> 'a \<Rightarrow> int) \<Rightarrow> 'a \<Rightarrow> 'a list \<Rightarrow> 'a list" where
  "sort_insert cmp x [] = [x]"
| "sort_insert cmp x (y # ys) = (if 0 < cmp x y then y # sort_insert cmp x ys else x # y # ys)"

definition insertionEngine :: "('a \<Rightarrow> 'a \<Rightarrow> int) \<Rightarrow> 'a list \<Rightarrow> 'a list" where
  "insertionEngine cmp xs = foldl (\<lambda>sorted x. sort_insert cmp x sorted) [] xs"

text \<open>
  A quiz view at its start, over questions with the given correct answers; and the view
  at its start over a quiz without a \<^verbatim>\<open>questions\<close> field.
\<close>

definition view_start :: "string list \<Rightarrow> quizView" where
  "view_start answers =
     \<lparr>questions = Some (map (\<lambda>a. \<lparr>correctAnswer = Some a\<rparr>) answers),
      currentQuestionIndex = 0, selectedAnswer = None, isAnswerCorrect = False,
      hasAnswered = False,
      results = \<lparr>score = 0, total = length answers, correctAnswers = 0,
                 incorrectAnswers = 0, completed = False\<rparr>\<rparr>"

definition view_of_row :: quizView where
  "view_of_row =
     \<lparr>questions = None, currentQuestionIndex = 0, selectedAnswer = None,
      isAnswerCorrect = False, hasAnswered = False,
      results = \<lparr>score = 0, total = 0, correctAnswers = 0, incorrectAnswers = 0,
                 completed = False\<rparr>\<rparr>"

text \<open>An application state: a database, the loaded module list, and stores otherwise empty.\<close>

definition app_of :: "db \<Rightarrow> Module list \<Rightarrow> app" where
  "app_of d loaded =
     \<lparr>database = d,
      vocabularyS = \<lparr>vocabularyItems = [], currentModuleVocabulary = [], vs_loading = False,
                      vs_error = None\<rparr>,
      quizS = \<lparr>qs_quizzes = [], currentQuiz = None, currentQuizIndex = 0, quizResults = [],
                qs_loading = False, qs_error = None\<rparr>,
      moduleS = \<lparr>ms_modules = loaded, ms_currentModule = None, ms_loading = False,
                  ms_error = None\<rparr>\<rparr>"

text \<open>
  A database whose module 1 has three words, with stored questions of modules 1 and 2;
  and the random source that leaves every array in its order.
\<close>

definition old_question :: "nat \<Rightarrow> nat \<Rightarrow> Quiz" where
  "old_question k m = \<lparr>q_id = Some k, q_moduleId = m, q_type = ''multiple-choice'',
                       question = ''Traduisez: casa'', options = Some [''maison''],
                       answer = ''maison'', q_completed = False\<rparr>"

definition db_three :: db where
  "db_three = \<lparr>vocabulary = take 3 (four_words False), modules = [module_row 1],
               userProgress = [],
               quizzes = [old_question 1 1, old_question 2 2, old_question 3 1],
               nextQuizId = 4\<rparr>"

definition no_shuffle :: "nat \<Rightarrow> nat list" where
  "no_shuffle k = []"

text \<open>
  A database over given words; four words of which two share their French text; five
  words; and the test for a multiple-choice question.
\<close>

definition db_of :: "Vocabulary list \<Rightarrow> db" where
  "db_of ws = \<lparr>vocabulary = ws, modules = [module_row 1], userProgress = [], quizzes = [],
               nextQuizId = 1\<rparr>"

definition synonym_words :: "Vocabulary list" where
  "synonym_words = [word 1 1 ''casa'' ''maison'' False, word 2 1 ''lar'' ''maison'' False,
                    word 3 1 ''carro'' ''voiture'' False, word 4 1 ''livro'' ''livre'' False]"

definition five_words :: "Vocabulary list" where
  "five_words = four_words False @ [word 5 1 ''gato'' ''chat'' False]"

definition isMultipleChoice :: "Quiz \<Rightarrow> bool" where
  "isMultipleChoice q = (q_type q = ''multiple-choice'')"

section \<open>Properties of the module progress\<close>

lemma fl_0: "fl 0 = 0"
  by (simp add: fl_def)

lemma Math_round_of_int: "Math_round (of_int n) = n"
  unfolding Math_round_def by linarith

lemma computeProgress_none: "computeProgress 0 t = 0"
  using Math_round_of_int [of 0] by (simp add: computeProgress_def fl_0)

text \<open>
  The expression alone, on counts that are right: 4 of 4 gives 100. It rounds the
  quotient before it multiplies, so 23 of 40 gives 57, where the exact value 57.5
  rounds to 58.
\<close>

lemma computeProgress_4_of_4: "computeProgress 4 4 = 100"
  by code_simp

lemma computeProgress_23_of_40: "computeProgress 23 40 = 57"
  by code_simp

text \<open>
  The filter of the second criteria object compares the boolean \<^verbatim>\<open>true\<close> as a key, so it
  passes no row, and the count of learned words is 0 whatever the table holds.
\<close>

lemma dexie_equals_boolean: "\<not> dexie_equals (KBoolean a) b"
  by (simp add: dexie_equals_def idb_cmp_is_0_def isKey_def)

lemma learnedInModule_none: "\<not> learnedInModule moduleId v"
  by (simp add: learnedInModule_def dexie_equals_boolean)

lemma learnedWords_0: "count_where (learnedInModule moduleId) rows = 0"
  by (simp add: count_where_def learnedInModule_none)

text \<open>
  So \<open>updateModuleProgress\<close> writes progress 0 and \<^verbatim>\<open>completed = false\<close> to the module's row
  for every table of words, and changes nothing else. It has no failing branch.
\<close>

lemma updateModuleProgress_writes_0:
  "updateModuleProgress moduleId d =
     d\<lparr>modules := map (\<lambda>r. if m_id r = moduleId then r\<lparr>progress := 0, m_completed := False\<rparr> else r)
                      (modules d)\<rparr>"
  by (simp add: updateModuleProgress_def Let_def learnedWords_0 computeProgress_none
        modules_table_update_def)

text \<open>
  C1. Module 1 has the four words of the example, all with \<^verbatim>\<open>learned = true\<close>: 4 words
  match the module and 4 of them are learned, for which the claim gives progress 100
  and \<^verbatim>\<open>completed = true\<close>. \<open>updateModuleProgress\<close> counts 4 words and 0 learned words,
  and writes progress 0 and \<^verbatim>\<open>completed = false\<close> to the module's row.
\<close>

theorem updateModuleProgress_all_learned:
  "length (filter (\<lambda>v. v_moduleId v = 1) (vocabulary (db_four True))) = 4
   \<and> length (filter (\<lambda>v. v_moduleId v = 1 \<and> learned v) (vocabulary (db_four True))) = 4
   \<and> count_where (inModule 1) (vocabulary (db_four True)) = 4
   \<and> count_where (learnedInModule 1) (vocabulary (db_four True)) = 0
   \<and> map progress (modules (updateModuleProgress 1 (db_four True))) = [0]
   \<and> map m_completed (modules (updateModuleProgress 1 (db_four True))) = [False]"
proof -
  have w: "vocabulary (db_four True) = four_words True" "modules (db_four True) = [module_row 1]"
    "m_id (module_row k) = k" for k
    by (simp_all add: db_four_def module_row_def)
  have "length (filter (\<lambda>v. v_moduleId v = 1) (four_words True)) = 4"
    "length (filter (\<lambda>v. v_moduleId v = 1 \<and> learned v) (four_words True)) = 4"
    "count_where (inModule 1) (four_words True) = 4"
    by (simp_all add: four_words_def word_def count_where_def inModule_def)
  then show ?thesis
    by (simp add: w learnedWords_0 updateModuleProgress_writes_0)
qed


section \<open>Properties of the study streak\<close>

subsection \<open>The day before a calendar day\<close>

text \<open>
  \<open>dayBefore\<close> is the calendar day just before a day of the calendar: a day of the
  calendar, earlier than the given one, with no day of the calendar in between. It is
  never the given day itself.
\<close>

lemma daysInMonth_pos: "1 \<le> daysInMonth y m"
  by (simp add: daysInMonth_def)

lemma daysInMonth_december: "daysInMonth y 11 = 31"
  by (simp add: daysInMonth_def)

lemma dayBefore_fields:
  "1 < cd_date c \<Longrightarrow> cd_year (dayBefore c) = cd_year c"
  "1 < cd_date c \<Longrightarrow> cd_month (dayBefore c) = cd_month c"
  "1 < cd_date c \<Longrightarrow> cd_date (dayBefore c) = cd_date c - 1"
  "cd_date c \<le> 1 \<Longrightarrow> cd_month c = 0 \<Longrightarrow> cd_year (dayBefore c) = cd_year c - 1"
  "cd_date c \<le> 1 \<Longrightarrow> cd_month c = 0 \<Longrightarrow> cd_month (dayBefore c) = 11"
  "cd_date c \<le> 1 \<Longrightarrow> cd_month c = 0 \<Longrightarrow> cd_date (dayBefore c) = 31"
  "cd_date c \<le> 1 \<Longrightarrow> cd_month c \<noteq> 0 \<Longrightarrow> cd_year (dayBefore c) = cd_year c"
  "cd_date c \<le> 1 \<Longrightarrow> cd_month c \<noteq> 0 \<Longrightarrow> cd_month (dayBefore c) = cd_month c - 1"
  "cd_date c \<le> 1 \<Longrightarrow> cd_month c \<noteq> 0 \<Longrightarrow>
     cd_date (dayBefore c) = daysInMonth (cd_year c) (cd_month c - 1)"
  by (simp_all add: dayBefore_def)

lemma dayBefore_valid:
  assumes "validDay c"
  shows "validDay (dayBefore c)"
proof -
  have v: "0 \<le> cd_month c" "cd_month c < 12" "1 \<le> cd_date c"
    "cd_date c \<le> daysInMonth (cd_year c) (cd_month c)"
    using assms by (simp_all add: validDay_def)
  consider "1 < cd_date c" | "cd_date c \<le> 1" "cd_month c = 0" | "cd_date c \<le> 1" "cd_month c \<noteq> 0"
    by linarith
  then show ?thesis
  proof cases
    case 1
    then show ?thesis
      unfolding validDay_def dayBefore_fields(1-3) [OF 1] using v by linarith
  next
    case 2
    then show ?thesis
      unfolding validDay_def dayBefore_fields(4-6) [OF 2] by (simp add: daysInMonth_december)
  next
    case 3
    then show ?thesis
      unfolding validDay_def dayBefore_fields(7-9) [OF 3]
      using v daysInMonth_pos [of "cd_year c" "cd_month c - 1"] by linarith
  qed
qed

lemma dayBefore_earlier:
  assumes "validDay c"
  shows "earlierDay (dayBefore c) c"
proof -
  have v: "0 \<le> cd_month c" "1 \<le> cd_date c"
    using assms by (simp_all add: validDay_def)
  consider "1 < cd_date c" | "cd_date c \<le> 1" "cd_month c = 0" | "cd_date c \<le> 1" "cd_month c \<noteq> 0"
    by linarith
  then show ?thesis
  proof cases
    case 1
    then show ?thesis
      unfolding earlierDay_def dayBefore_fields(1-3) [OF 1] by linarith
  next
    case 2
    then show ?thesis
      unfolding earlierDay_def dayBefore_fields(4-6) [OF 2] by linarith
  next
    case 3
    then show ?thesis
      unfolding earlierDay_def dayBefore_fields(7-9) [OF 3] using v by linarith
  qed
qed

lemma dayBefore_adjacent:
  assumes c: "validDay c" and d: "validDay d" and e: "earlierDay d c"
  shows "d = dayBefore c \<or> earlierDay d (dayBefore c)"
proof -
  let ?y = "dayBefore c"
  have dd: "1 \<le> cd_date d" "cd_date d \<le> daysInMonth (cd_year d) (cd_month d)"
    "cd_month d < 12" "0 \<le> cd_month d" "1 \<le> cd_date c" "0 \<le> cd_month c"
    using c d by (simp_all add: validDay_def)
  have eq: "d = ?y" if "cd_year d = cd_year ?y" "cd_month d = cd_month ?y" "cd_date d = cd_date ?y"
    using that by simp
  consider "1 < cd_date c" | "cd_date c \<le> 1" "cd_month c = 0" | "cd_date c \<le> 1" "cd_month c \<noteq> 0"
    by linarith
  then have "(cd_year d = cd_year ?y \<and> cd_month d = cd_month ?y \<and> cd_date d = cd_date ?y)
             \<or> earlierDay d ?y"
  proof cases
    case 1
    show ?thesis
      using e 1 unfolding earlierDay_def dayBefore_fields(1-3) [OF 1] by linarith
  next
    case 2
    have "cd_date d \<le> 31" if "cd_month d = 11"
      using dd(2) that by (simp add: daysInMonth_december)
    then show ?thesis
      using e 2 dd unfolding earlierDay_def dayBefore_fields(4-6) [OF 2] by linarith
  next
    case 3
    have "cd_date d \<le> daysInMonth (cd_year c) (cd_month c - 1)"
      if "cd_month d = cd_month c - 1" "cd_year d = cd_year c"
      using dd(2) that by simp
    then show ?thesis
      using e 3 dd unfolding earlierDay_def dayBefore_fields(7-9) [OF 3] by linarith
  qed
  then show ?thesis
    using eq by blast
qed

lemma dayBefore_differs: "dayBefore c \<noteq> c"
proof
  assume a: "dayBefore c = c"
  consider "1 < cd_date c" | "cd_date c \<le> 1" "cd_month c = 0" | "cd_date c \<le> 1" "cd_month c \<noteq> 0"
    by linarith
  then show False
  proof cases
    case 1
    from dayBefore_fields(3) [OF 1] show False unfolding a by simp
  next
    case 2
    from dayBefore_fields(4) [OF 2] show False unfolding a by simp
  next
    case 3
    from dayBefore_fields(8) [OF 3] show False unfolding a by simp
  qed
qed

lemma earlierDay_irrefl: "\<not> earlierDay c c"
  by (simp add: earlierDay_def)

lemma earlierDay_asym: "earlierDay a b \<Longrightarrow> \<not> earlierDay b a"
  unfolding earlierDay_def by linarith

text \<open>A day with a day of the calendar between it and \<open>c\<close> is not the day before \<open>c\<close>.\<close>

lemma gap_not_dayBefore:
  assumes "validDay c" "validDay g" "earlierDay l g" "earlierDay g c"
  shows "l \<noteq> dayBefore c"
proof
  assume l: "l = dayBefore c"
  from dayBefore_adjacent [OF assms(1,2,4)] show False
  proof
    assume "g = dayBefore c"
    with assms(3) l show False by (simp add: earlierDay_irrefl)
  next
    assume "earlierDay g (dayBefore c)"
    with assms(3) l earlierDay_asym [of l g] show False by simp
  qed
qed

subsection \<open>The calendar of time values\<close>

text \<open>
  \<open>YearFromTime\<close> is the year in which the day of a time value lies, the calendar fields
  of a time value are a day of the calendar, and the fields of the time value a day
  earlier are the calendar day before.
\<close>

lemma div_succ:
  fixes x d :: int
  assumes "0 < d"
  shows "(x + 1) div d = x div d + (if (x + 1) mod d = 0 then 1 else 0)"
proof -
  have a: "x = d * (x div d) + x mod d" by simp
  have r: "0 \<le> x mod d" "x mod d < d" using assms by simp_all
  show ?thesis
  proof (cases "x mod d + 1 = d")
    case True
    have "x + 1 = d * (x div d) + (x mod d + 1)"
      using a by linarith
    also have "\<dots> = d * (x div d) + d"
      unfolding True ..
    also have "\<dots> = d * (x div d + 1) + 0"
      by (simp add: distrib_left)
    finally have e: "x + 1 = d * (x div d + 1) + 0" .
    have "(x + 1) div d = x div d + 1"
      by (rule int_div_pos_eq [OF e]) (use assms in simp_all)
    moreover have "(x + 1) mod d = 0"
      by (rule int_mod_pos_eq [OF e]) (use assms in simp_all)
    ultimately show ?thesis by simp
  next
    case False
    then have lt: "x mod d + 1 < d" using r by linarith
    have e: "x + 1 = d * (x div d) + (x mod d + 1)"
      using a by linarith
    have "(x + 1) div d = x div d"
      by (rule int_div_pos_eq [OF e]) (use r lt in simp_all)
    moreover have "(x + 1) mod d = x mod d + 1"
      by (rule int_mod_pos_eq [OF e]) (use r lt in simp_all)
    ultimately show ?thesis using r by simp
  qed
qed

lemma mod_shift:
  "((y - 1968) mod 4 = 0) = (y mod 4 = (0::int))"
  "((y - 1900) mod 100 = 0) = (y mod 100 = (0::int))"
  "((y - 1600) mod 400 = 0) = (y mod 400 = (0::int))"
proof -
  have e: "y - 1968 = y + (- 492) * 4" "y - 1900 = y + (- 19) * 100" "y - 1600 = y + (- 4) * 400"
    by simp_all
  show "((y - 1968) mod 4 = 0) = (y mod 4 = (0::int))"
    unfolding e(1) by (simp only: mod_mult_self1)
  show "((y - 1900) mod 100 = 0) = (y mod 100 = (0::int))"
    unfolding e(2) by (simp only: mod_mult_self1)
  show "((y - 1600) mod 400 = 0) = (y mod 400 = (0::int))"
    unfolding e(3) by (simp only: mod_mult_self1)
qed

lemma mod_100_400:
  fixes y :: int
  shows "y mod 100 = 0 \<Longrightarrow> y mod 4 = 0" "y mod 400 = 0 \<Longrightarrow> y mod 100 = 0"
proof -
  have d: "(4::int) dvd 100" "(100::int) dvd 400" by simp_all
  show "y mod 100 = 0 \<Longrightarrow> y mod 4 = 0"
    using dvd_trans [OF d(1), of y] by (simp add: mod_eq_0_iff_dvd)
  show "y mod 400 = 0 \<Longrightarrow> y mod 100 = 0"
    using dvd_trans [OF d(2), of y] by (simp add: mod_eq_0_iff_dvd)
qed

lemma DaysInYear_leap: "DaysInYear y = (if isLeapYear y then 366 else 365)"
  using mod_100_400 [of y] unfolding DaysInYear_def isLeapYear_def by auto

lemma DayFromYear_step: "DayFromYear (y + 1) = DayFromYear y + DaysInYear y"
proof -
  have a: "(y + 1 - 1969) div 4 = (y - 1969) div 4 + (if y mod 4 = 0 then 1 else 0)"
    using div_succ [of 4 "y - 1969"] mod_shift(1) [of y] by (simp add: algebra_simps)
  have b: "(y + 1 - 1901) div 100 = (y - 1901) div 100 + (if y mod 100 = 0 then 1 else 0)"
    using div_succ [of 100 "y - 1901"] mod_shift(2) [of y] by (simp add: algebra_simps)
  have c: "(y + 1 - 1601) div 400 = (y - 1601) div 400 + (if y mod 400 = 0 then 1 else 0)"
    using div_succ [of 400 "y - 1601"] mod_shift(3) [of y] by (simp add: algebra_simps)
  show ?thesis
    unfolding DayFromYear_def DaysInYear_def a b c
    using mod_100_400 [of y] by auto
qed

lemma div_bounds:
  fixes x d :: int
  assumes "0 < d"
  shows "d * (x div d) \<le> x" "x < d * (x div d) + d"
proof -
  have a: "x = d * (x div d) + x mod d" by simp
  have r: "0 \<le> x mod d" "x mod d < d" using assms by simp_all
  show "d * (x div d) \<le> x" using a r by linarith
  show "x < d * (x div d) + d" using a r by linarith
qed

lemma DayFromYear_near:
  fixes n :: int
  defines "y \<equiv> 1970 + (n * 400) div 146097"
  shows "DayFromYear (y - 1) \<le> n" "n < DayFromYear (y + 2)"
proof -
  define k where "k = (n * 400) div 146097"
  have y: "y = 1970 + k" by (simp add: y_def k_def)
  have k: "146097 * k \<le> n * 400" "n * 400 < 146097 * k + 146097"
    unfolding k_def by (rule div_bounds, simp)+
  have lo: "DayFromYear (y - 1) = 365 * k - 365 + k div 4 - (k + 68) div 100 + (k + 368) div 400"
    unfolding DayFromYear_def y by (simp add: algebra_simps)
  have hi: "DayFromYear (y + 2) = 365 * k + 730 + (k + 3) div 4 - (k + 71) div 100 + (k + 371) div 400"
    unfolding DayFromYear_def y by (simp add: algebra_simps)
  define a1 where "a1 = k div 4"
  define b1 where "b1 = (k + 68) div 100"
  define c1 where "c1 = (k + 368) div 400"
  have f1: "4 * a1 \<le> k" "100 * b1 \<le> k + 68" "k + 68 < 100 * b1 + 100" "400 * c1 \<le> k + 368"
    unfolding a1_def b1_def c1_def
    by (rule div_bounds [OF zero_less_numeral])+
  have "365 * k - 365 + a1 - b1 + c1 \<le> n"
    using k f1 by linarith
  then show "DayFromYear (y - 1) \<le> n"
    unfolding lo a1_def b1_def c1_def .
  define a2 where "a2 = (k + 3) div 4"
  define b2 where "b2 = (k + 71) div 100"
  define c2 where "c2 = (k + 371) div 400"
  have f2: "k + 3 < 4 * a2 + 4" "100 * b2 \<le> k + 71" "k + 371 < 400 * c2 + 400"
    unfolding a2_def b2_def c2_def
    by (rule div_bounds [OF zero_less_numeral])+
  have "n < 365 * k + 730 + a2 - b2 + c2"
    using k f2 by linarith
  then show "n < DayFromYear (y + 2)"
    unfolding hi a2_def b2_def c2_def .
qed

lemma YearFromTime_bounds:
  "DayFromYear (YearFromTime t) \<le> Day t" "Day t < DayFromYear (YearFromTime t + 1)"
proof -
  let ?y = "1970 + (Day t * 400) div 146097"
  have n: "DayFromYear (?y - 1) \<le> Day t" "Day t < DayFromYear (?y + 2)"
    by (rule DayFromYear_near)+
  have e: "?y + 1 + 1 = ?y + 2" "?y - 1 + 1 = ?y" by simp_all
  show "DayFromYear (YearFromTime t) \<le> Day t"
    using n(1) by (simp add: YearFromTime_def Let_def)
  show "Day t < DayFromYear (YearFromTime t + 1)"
    using n(2) unfolding YearFromTime_def Let_def
    by (auto simp: e simp del: add_diff_cancel)
qed


lemma DaysInYear_range: "DaysInYear y = 365 \<or> DaysInYear y = 366"
  by (simp add: DaysInYear_def)

lemma DayFromYear_less_aux: "DayFromYear a < DayFromYear (a + 1 + int m)"
proof (induction m)
  case 0
  show ?case
    using DayFromYear_step [of a] DaysInYear_range [of a] by auto
next
  case (Suc m)
  have "DayFromYear (a + 1 + int m) < DayFromYear (a + 1 + int m + 1)"
    using DayFromYear_step [of "a + 1 + int m"] DaysInYear_range [of "a + 1 + int m"] by auto
  with Suc show ?case
    by (simp add: algebra_simps)
qed

lemma DayFromYear_less: "a < b \<Longrightarrow> DayFromYear a < DayFromYear b"
  using DayFromYear_less_aux [of a "nat (b - a - 1)"] by simp

lemma DayFromYear_le: "a \<le> b \<Longrightarrow> DayFromYear a \<le> DayFromYear b"
  using DayFromYear_less [of a b] by (cases "a = b") auto

lemma YearFromTime_unique:
  assumes "DayFromYear y \<le> Day t" "Day t < DayFromYear (y + 1)"
  shows "YearFromTime t = y"
proof (rule ccontr)
  assume "YearFromTime t \<noteq> y"
  then consider "YearFromTime t + 1 \<le> y" | "y + 1 \<le> YearFromTime t"
    by linarith
  then show False
  proof cases
    case 1
    then have "DayFromYear (YearFromTime t + 1) \<le> DayFromYear y"
      by (rule DayFromYear_le)
    with assms(1) YearFromTime_bounds(2) [of t] show False by linarith
  next
    case 2
    then have "DayFromYear (y + 1) \<le> DayFromYear (YearFromTime t)"
      by (rule DayFromYear_le)
    with assms(2) YearFromTime_bounds(1) [of t] show False by linarith
  qed
qed

lemma Day_before: "Day (t - msPerDay) = Day t - 1"
proof -
  have "t - 86400000 = t + (- 1) * 86400000" by simp
  then show ?thesis
    unfolding Day_def msPerDay_def by (simp only: div_mult_self1)
qed

lemma TimeWithinDay_before: "TimeWithinDay (t - msPerDay) = TimeWithinDay t"
proof -
  have "t - 86400000 = t + (- 1) * 86400000" by simp
  then show ?thesis
    unfolding TimeWithinDay_def msPerDay_def by (simp only: mod_mult_self1)
qed

lemma DayWithinYear_range:
  "0 \<le> DayWithinYear t" "DayWithinYear t < 365 + InLeapYear t"
proof -
  show "0 \<le> DayWithinYear t"
    using YearFromTime_bounds(1) [of t] by (simp add: DayWithinYear_def)
  show "DayWithinYear t < 365 + InLeapYear t"
    using YearFromTime_bounds(2) [of t] DayFromYear_step [of "YearFromTime t"]
      DaysInYear_range [of "YearFromTime t"]
    by (auto simp: DayWithinYear_def InLeapYear_def)
qed


lemma InLeapYear_leap: "InLeapYear t = (if isLeapYear (YearFromTime t) then 1 else 0)"
  by (simp add: InLeapYear_def DaysInYear_leap)

lemma yearDay_table:
  "0 \<le> l \<Longrightarrow> l \<le> 1 \<Longrightarrow> 0 \<le> d \<Longrightarrow> d < 31 \<Longrightarrow> monthOfYearDay d l = 0 \<and> dateOfYearDay d l = d - (0) + 1"
  "0 \<le> l \<Longrightarrow> l \<le> 1 \<Longrightarrow> 31 \<le> d \<Longrightarrow> d < 59 + l \<Longrightarrow> monthOfYearDay d l = 1 \<and> dateOfYearDay d l = d - (31) + 1"
  "0 \<le> l \<Longrightarrow> l \<le> 1 \<Longrightarrow> 59 + l \<le> d \<Longrightarrow> d < 90 + l \<Longrightarrow> monthOfYearDay d l = 2 \<and> dateOfYearDay d l = d - (59 + l) + 1"
  "0 \<le> l \<Longrightarrow> l \<le> 1 \<Longrightarrow> 90 + l \<le> d \<Longrightarrow> d < 120 + l \<Longrightarrow> monthOfYearDay d l = 3 \<and> dateOfYearDay d l = d - (90 + l) + 1"
  "0 \<le> l \<Longrightarrow> l \<le> 1 \<Longrightarrow> 120 + l \<le> d \<Longrightarrow> d < 151 + l \<Longrightarrow> monthOfYearDay d l = 4 \<and> dateOfYearDay d l = d - (120 + l) + 1"
  "0 \<le> l \<Longrightarrow> l \<le> 1 \<Longrightarrow> 151 + l \<le> d \<Longrightarrow> d < 181 + l \<Longrightarrow> monthOfYearDay d l = 5 \<and> dateOfYearDay d l = d - (151 + l) + 1"
  "0 \<le> l \<Longrightarrow> l \<le> 1 \<Longrightarrow> 181 + l \<le> d \<Longrightarrow> d < 212 + l \<Longrightarrow> monthOfYearDay d l = 6 \<and> dateOfYearDay d l = d - (181 + l) + 1"
  "0 \<le> l \<Longrightarrow> l \<le> 1 \<Longrightarrow> 212 + l \<le> d \<Longrightarrow> d < 243 + l \<Longrightarrow> monthOfYearDay d l = 7 \<and> dateOfYearDay d l = d - (212 + l) + 1"
  "0 \<le> l \<Longrightarrow> l \<le> 1 \<Longrightarrow> 243 + l \<le> d \<Longrightarrow> d < 273 + l \<Longrightarrow> monthOfYearDay d l = 8 \<and> dateOfYearDay d l = d - (243 + l) + 1"
  "0 \<le> l \<Longrightarrow> l \<le> 1 \<Longrightarrow> 273 + l \<le> d \<Longrightarrow> d < 304 + l \<Longrightarrow> monthOfYearDay d l = 9 \<and> dateOfYearDay d l = d - (273 + l) + 1"
  "0 \<le> l \<Longrightarrow> l \<le> 1 \<Longrightarrow> 304 + l \<le> d \<Longrightarrow> d < 334 + l \<Longrightarrow> monthOfYearDay d l = 10 \<and> dateOfYearDay d l = d - (304 + l) + 1"
  "0 \<le> l \<Longrightarrow> l \<le> 1 \<Longrightarrow> 334 + l \<le> d \<Longrightarrow> d < 365 + l \<Longrightarrow> monthOfYearDay d l = 11 \<and> dateOfYearDay d l = d - (334 + l) + 1"
  by (simp_all add: monthOfYearDay_def dateOfYearDay_def)

lemma yearDay_cases:
  fixes w l :: int
  assumes "w < 365 + l"
  obtains "w < 31"
    | "31 \<le> w" "w < 59 + l"
    | "59 + l \<le> w" "w < 90 + l"
    | "90 + l \<le> w" "w < 120 + l"
    | "120 + l \<le> w" "w < 151 + l"
    | "151 + l \<le> w" "w < 181 + l"
    | "181 + l \<le> w" "w < 212 + l"
    | "212 + l \<le> w" "w < 243 + l"
    | "243 + l \<le> w" "w < 273 + l"
    | "273 + l \<le> w" "w < 304 + l"
    | "304 + l \<le> w" "w < 334 + l"
    | "334 + l \<le> w" "w < 365 + l"
  using assms by (meson not_le_imp_less)

lemma fields_within_year:
  assumes "DayWithinYear t' = DayWithinYear t - 1" "InLeapYear t' = InLeapYear t"
    "YearFromTime t' = YearFromTime t" "1 \<le> DayWithinYear t"
  shows "\<lparr>cd_year = YearFromTime t', cd_month = MonthFromTime t', cd_date = DateFromTime t'\<rparr>
         = dayBefore \<lparr>cd_year = YearFromTime t, cd_month = MonthFromTime t, cd_date = DateFromTime t\<rparr>"
proof -
  define w where "w = DayWithinYear t"
  define l where "l = InLeapYear t"
  define y where "y = YearFromTime t"
  have r: "1 \<le> w" "w < 365 + l"
    using assms(4) DayWithinYear_range(2) [of t] unfolding w_def l_def by simp_all
  have l: "0 \<le> l" "l \<le> 1"
    unfolding l_def by (simp_all add: InLeapYear_def)
  have leap: "isLeapYear y = (l = 1)"
    unfolding l_def y_def by (simp add: InLeapYear_leap)
  note tab = yearDay_table [OF l]
  have goal: "\<lparr>cd_year = y, cd_month = monthOfYearDay (w - 1) l, cd_date = dateOfYearDay (w - 1) l\<rparr>
         = dayBefore \<lparr>cd_year = y, cd_month = monthOfYearDay w l, cd_date = dateOfYearDay w l\<rparr>"
    using r(2)
  proof (cases rule: yearDay_cases)
    case 1
    then show ?thesis
      using tab(1) [of w] tab(1) [of "w - 1"] r by (simp add: dayBefore_def)
  next
    case 2
    show ?thesis
    proof (cases "w = 31")
      case True
      then show ?thesis
        using tab(2) [of w] tab(1) [of "w - 1"] l
        by (simp add: dayBefore_def daysInMonth_def leap)
    next
      case False
      with 2 show ?thesis
        using tab(2) [of w] tab(2) [of "w - 1"] by (simp add: dayBefore_def)
    qed
  next
    case 3
    show ?thesis
    proof (cases "w = 59 + l")
      case True
      then show ?thesis
        using tab(3) [of w] tab(2) [of "w - 1"] l
        by (simp add: dayBefore_def daysInMonth_def leap)
    next
      case False
      with 3 show ?thesis
        using tab(3) [of w] tab(3) [of "w - 1"] by (simp add: dayBefore_def)
    qed
  next
    case 4
    show ?thesis
    proof (cases "w = 90 + l")
      case True
      then show ?thesis
        using tab(4) [of w] tab(3) [of "w - 1"] l
        by (simp add: dayBefore_def daysInMonth_def leap)
    next
      case False
      with 4 show ?thesis
        using tab(4) [of w] tab(4) [of "w - 1"] by (simp add: dayBefore_def)
    qed
  next
    case 5
    show ?thesis
    proof (cases "w = 120 + l")
      case True
      then show ?thesis
        using tab(5) [of w] tab(4) [of "w - 1"] l
        by (simp add: dayBefore_def daysInMonth_def leap)
    next
      case False
      with 5 show ?thesis
        using tab(5) [of w] tab(5) [of "w - 1"] by (simp add: dayBefore_def)
    qed
  next
    case 6
    show ?thesis
    proof (cases "w = 151 + l")
      case True
      then show ?thesis
        using tab(6) [of w] tab(5) [of "w - 1"] l
        by (simp add: dayBefore_def daysInMonth_def leap)
    next
      case False
      with 6 show ?thesis
        using tab(6) [of w] tab(6) [of "w - 1"] by (simp add: dayBefore_def)
    qed
  next
    case 7
    show ?thesis
    proof (cases "w = 181 + l")
      case True
      then show ?thesis
        using tab(7) [of w] tab(6) [of "w - 1"] l
        by (simp add: dayBefore_def daysInMonth_def leap)
    next
      case False
      with 7 show ?thesis
        using tab(7) [of w] tab(7) [of "w - 1"] by (simp add: dayBefore_def)
    qed
  next
    case 8
    show ?thesis
    proof (cases "w = 212 + l")
      case True
      then show ?thesis
        using tab(8) [of w] tab(7) [of "w - 1"] l
        by (simp add: dayBefore_def daysInMonth_def leap)
    next
      case False
      with 8 show ?thesis
        using tab(8) [of w] tab(8) [of "w - 1"] by (simp add: dayBefore_def)
    qed
  next
    case 9
    show ?thesis
    proof (cases "w = 243 + l")
      case True
      then show ?thesis
        using tab(9) [of w] tab(8) [of "w - 1"] l
        by (simp add: dayBefore_def daysInMonth_def leap)
    next
      case False
      with 9 show ?thesis
        using tab(9) [of w] tab(9) [of "w - 1"] by (simp add: dayBefore_def)
    qed
  next
    case 10
    show ?thesis
    proof (cases "w = 273 + l")
      case True
      then show ?thesis
        using tab(10) [of w] tab(9) [of "w - 1"] l
        by (simp add: dayBefore_def daysInMonth_def leap)
    next
      case False
      with 10 show ?thesis
        using tab(10) [of w] tab(10) [of "w - 1"] by (simp add: dayBefore_def)
    qed
  next
    case 11
    show ?thesis
    proof (cases "w = 304 + l")
      case True
      then show ?thesis
        using tab(11) [of w] tab(10) [of "w - 1"] l
        by (simp add: dayBefore_def daysInMonth_def leap)
    next
      case False
      with 11 show ?thesis
        using tab(11) [of w] tab(11) [of "w - 1"] by (simp add: dayBefore_def)
    qed
  next
    case 12
    show ?thesis
    proof (cases "w = 334 + l")
      case True
      then show ?thesis
        using tab(12) [of w] tab(11) [of "w - 1"] l
        by (simp add: dayBefore_def daysInMonth_def leap)
    next
      case False
      with 12 show ?thesis
        using tab(12) [of w] tab(12) [of "w - 1"] by (simp add: dayBefore_def)
    qed
  qed
  show ?thesis
    unfolding MonthFromTime_def DateFromTime_def assms(1,2,3)
      w_def [symmetric] l_def [symmetric] y_def [symmetric]
    by (rule goal)
qed


lemma fields_new_year:
  assumes "DayWithinYear t = 0"
  shows "\<lparr>cd_year = YearFromTime (t - msPerDay), cd_month = MonthFromTime (t - msPerDay),
           cd_date = DateFromTime (t - msPerDay)\<rparr>
         = dayBefore \<lparr>cd_year = YearFromTime t, cd_month = MonthFromTime t, cd_date = DateFromTime t\<rparr>"
proof -
  let ?t' = "t - msPerDay"
  define y where "y = YearFromTime t"
  have n: "Day t = DayFromYear y"
    using assms by (simp add: DayWithinYear_def y_def)
  have s: "DayFromYear y = DayFromYear (y - 1) + DaysInYear (y - 1)"
    using DayFromYear_step [of "y - 1"] by simp
  have y': "YearFromTime ?t' = y - 1"
  proof (rule YearFromTime_unique)
    show "DayFromYear (y - 1) \<le> Day ?t'"
      unfolding Day_before n s using DaysInYear_range [of "y - 1"] by auto
    show "Day ?t' < DayFromYear (y - 1 + 1)"
      unfolding Day_before n by simp
  qed
  define l where "l = InLeapYear ?t'"
  have l: "0 \<le> l" "l \<le> 1"
    unfolding l_def by (simp_all add: InLeapYear_def)
  have d: "DaysInYear (y - 1) = 365 + l"
    unfolding l_def InLeapYear_def y' using DaysInYear_range [of "y - 1"] by auto
  have w': "DayWithinYear ?t' = 364 + l"
    unfolding DayWithinYear_def y' Day_before n s d by simp
  have now: "MonthFromTime t = 0" "DateFromTime t = 1"
    unfolding MonthFromTime_def DateFromTime_def assms
    by (simp_all add: monthOfYearDay_def dateOfYearDay_def)
  have "monthOfYearDay (364 + l) l = 11 \<and> dateOfYearDay (364 + l) l = 364 + l - (334 + l) + 1"
    using l by (intro yearDay_table(12)) simp_all
  then have before: "MonthFromTime ?t' = 11" "DateFromTime ?t' = 31"
    unfolding MonthFromTime_def DateFromTime_def w' l_def [symmetric] by simp_all
  show ?thesis
    unfolding now before y' y_def [symmetric] by (simp add: dayBefore_def)
qed

text \<open>The calendar fields of a time value, and those of the time value a day earlier.\<close>

lemma fields_before:
  "\<lparr>cd_year = YearFromTime (t - msPerDay), cd_month = MonthFromTime (t - msPerDay),
     cd_date = DateFromTime (t - msPerDay)\<rparr>
   = dayBefore \<lparr>cd_year = YearFromTime t, cd_month = MonthFromTime t, cd_date = DateFromTime t\<rparr>"
proof (cases "DayWithinYear t = 0")
  case True
  then show ?thesis by (rule fields_new_year)
next
  case False
  then have w: "1 \<le> DayWithinYear t"
    using DayWithinYear_range(1) [of t] by linarith
  let ?t' = "t - msPerDay"
  have y': "YearFromTime ?t' = YearFromTime t"
  proof (rule YearFromTime_unique)
    show "DayFromYear (YearFromTime t) \<le> Day ?t'"
      unfolding Day_before using w by (simp add: DayWithinYear_def)
    show "Day ?t' < DayFromYear (YearFromTime t + 1)"
      unfolding Day_before using YearFromTime_bounds(2) [of t] by simp
  qed
  have "DayWithinYear ?t' = DayWithinYear t - 1" "InLeapYear ?t' = InLeapYear t"
    unfolding DayWithinYear_def InLeapYear_def y' Day_before by simp_all
  then show ?thesis
    using y' w by (rule fields_within_year)
qed

lemma fields_valid:
  "validDay \<lparr>cd_year = YearFromTime t, cd_month = MonthFromTime t, cd_date = DateFromTime t\<rparr>"
proof -
  define w where "w = DayWithinYear t"
  define l where "l = InLeapYear t"
  have r: "0 \<le> w" "w < 365 + l"
    using DayWithinYear_range [of t] unfolding w_def l_def by simp_all
  have l: "0 \<le> l" "l \<le> 1"
    unfolding l_def by (simp_all add: InLeapYear_def)
  have leap: "isLeapYear (YearFromTime t) = (l = 1)"
    unfolding l_def by (simp add: InLeapYear_leap)
  note tab = yearDay_table [OF l, of w]
  have "0 \<le> monthOfYearDay w l \<and> monthOfYearDay w l < 12 \<and> 1 \<le> dateOfYearDay w l
        \<and> dateOfYearDay w l \<le> daysInMonth (YearFromTime t) (monthOfYearDay w l)"
    using r(2)
  proof (cases rule: yearDay_cases)
    case 1 then show ?thesis using tab(1) r by (simp add: daysInMonth_def)
  next
    case 2 then show ?thesis using tab(2) l by (auto simp: daysInMonth_def leap)
  next
    case 3 then show ?thesis using tab(3) by (simp add: daysInMonth_def)
  next
    case 4 then show ?thesis using tab(4) by (simp add: daysInMonth_def)
  next
    case 5 then show ?thesis using tab(5) by (simp add: daysInMonth_def)
  next
    case 6 then show ?thesis using tab(6) by (simp add: daysInMonth_def)
  next
    case 7 then show ?thesis using tab(7) by (simp add: daysInMonth_def)
  next
    case 8 then show ?thesis using tab(8) by (simp add: daysInMonth_def)
  next
    case 9 then show ?thesis using tab(9) by (simp add: daysInMonth_def)
  next
    case 10 then show ?thesis using tab(10) by (simp add: daysInMonth_def)
  next
    case 11 then show ?thesis using tab(11) by (simp add: daysInMonth_def)
  next
    case 12 then show ?thesis using tab(12) by (simp add: daysInMonth_def)
  qed
  then show ?thesis
    unfolding validDay_def MonthFromTime_def DateFromTime_def w_def l_def by simp
qed

lemma localDay_valid: "validDay (localDay z d)"
  unfolding localDay_def getFullYear_def getMonth_def getDate_def by (rule fields_valid)

text \<open>\<open>MakeDay\<close> on the fields of a time value, the day of the month lowered by one.\<close>

lemma MakeDay_before:
  "MakeDay (YearFromTime t) (MonthFromTime t) (DateFromTime t - 1) = Day t - 1"
proof -
  define w where "w = DayWithinYear t"
  define l where "l = InLeapYear t"
  have r: "0 \<le> w" "w < 365 + l"
    using DayWithinYear_range [of t] unfolding w_def l_def by simp_all
  have l: "0 \<le> l" "l \<le> 1"
    unfolding l_def by (simp_all add: InLeapYear_def)
  have l': "(if DaysInYear (YearFromTime t) = 366 then 1 else 0) = l"
    unfolding l_def InLeapYear_def ..
  have n: "Day t = DayFromYear (YearFromTime t) + w"
    unfolding w_def DayWithinYear_def by simp
  note tab = yearDay_table [OF l, of w]
  have "firstOfMonth (YearFromTime t) (monthOfYearDay w l) + (dateOfYearDay w l - 1) - 1
        = DayFromYear (YearFromTime t) + w - 1
        \<and> 0 \<le> monthOfYearDay w l \<and> monthOfYearDay w l < 12"
    using r(2)
  proof (cases rule: yearDay_cases)
    case 1 then show ?thesis using tab(1) r by (simp add: firstOfMonth_def l')
  next
    case 2 then show ?thesis using tab(2) by (simp add: firstOfMonth_def l')
  next
    case 3 then show ?thesis using tab(3) by (simp add: firstOfMonth_def l')
  next
    case 4 then show ?thesis using tab(4) by (simp add: firstOfMonth_def l')
  next
    case 5 then show ?thesis using tab(5) by (simp add: firstOfMonth_def l')
  next
    case 6 then show ?thesis using tab(6) by (simp add: firstOfMonth_def l')
  next
    case 7 then show ?thesis using tab(7) by (simp add: firstOfMonth_def l')
  next
    case 8 then show ?thesis using tab(8) by (simp add: firstOfMonth_def l')
  next
    case 9 then show ?thesis using tab(9) by (simp add: firstOfMonth_def l')
  next
    case 10 then show ?thesis using tab(10) by (simp add: firstOfMonth_def l')
  next
    case 11 then show ?thesis using tab(11) by (simp add: firstOfMonth_def l')
  next
    case 12 then show ?thesis using tab(12) by (simp add: firstOfMonth_def l')
  qed
  then show ?thesis
    unfolding MakeDay_def Let_def MonthFromTime_def DateFromTime_def w_def [symmetric]
      l_def [symmetric] n
    by (simp add: div_pos_pos_trivial mod_pos_pos_trivial)
qed

text \<open>
  Where the zone's offset at the time value \<open>d\<close> is also its offset a day earlier, both
  as a time value and as a local time, \<^verbatim>\<open>setDate(getDate() - 1)\<close> goes back by a day and
  lands on the calendar day before. This is so in every zone of one offset.
\<close>

lemma setDate_day_before:
  assumes "offsetOfLocal z (LocalTime z d - msPerDay) = offsetOfUTC z d"
  shows "setDate z d (getDate z d - 1) = d - msPerDay"
proof -
  let ?t = "LocalTime z d"
  have m: "MakeDate (MakeDay (YearFromTime ?t) (MonthFromTime ?t) (DateFromTime ?t - 1))
          (TimeWithinDay ?t) = ?t - msPerDay"
    unfolding MakeDay_before MakeDate_def Day_def TimeWithinDay_def
    by (simp add: algebra_simps)
  have "setDate z d (getDate z d - 1) = UTC z (?t - msPerDay)"
    by (simp add: setDate_def getDate_def Let_def m)
  also have "\<dots> = ?t - msPerDay - offsetOfUTC z d"
    by (simp add: UTC_def assms)
  also have "\<dots> = d - msPerDay"
    by (simp add: LocalTime_def)
  finally show ?thesis .
qed

lemma setDate_lands:
  assumes "offsetOfLocal z (LocalTime z d - msPerDay) = offsetOfUTC z d"
    and "offsetOfUTC z (d - msPerDay) = offsetOfUTC z d"
  shows "localDay z (setDate z d (getDate z d - 1)) = dayBefore (localDay z d)"
proof -
  have lt: "LocalTime z (d - msPerDay) = LocalTime z d - msPerDay"
    unfolding LocalTime_def assms(2) by simp
  have "localDay z (setDate z d (getDate z d - 1)) = localDay z (d - msPerDay)"
    by (simp only: setDate_day_before [OF assms(1)])
  also have "\<dots> = dayBefore (localDay z d)"
    unfolding localDay_def getFullYear_def getMonth_def getDate_def lt by (rule fields_before)
  finally show ?thesis .
qed

lemma setDate_lands_fixedZone:
  "localDay (fixedZone off) (setDate (fixedZone off) d (getDate (fixedZone off) d - 1))
   = dayBefore (localDay (fixedZone off) d)"
  by (rule setDate_lands) (simp_all add: fixedZone_def)

subsection \<open>The streak rule\<close>

lemma localDay_eq:
  "(localDay z a = localDay z b) =
     (getDate z a = getDate z b \<and> getMonth z a = getMonth z b \<and> getFullYear z a = getFullYear z b)"
  by (auto simp: localDay_def)

lemma singleton_hd: "length xs = 1 \<Longrightarrow> hd xs = x \<Longrightarrow> xs = [x]"
  by (cases xs) auto





section \<open>Properties of the review queue\<close>

text \<open>
  The comparison function is not positive on \<open>a\<close> and \<open>b\<close> exactly when \<open>a\<close> was never
  reviewed, or both were reviewed and \<open>a\<close> not after \<open>b\<close>.
\<close>

lemma reviewCompare_le_0:
  "(reviewCompare a b \<le> 0) =
     (case lastReviewed a of None \<Rightarrow> True
      | Some ta \<Rightarrow> (case lastReviewed b of None \<Rightarrow> False | Some tb \<Rightarrow> ta \<le> tb))"
  by (simp add: reviewCompare_def split: option.splits)

lemma reviewCompare_trans:
  "reviewCompare a b \<le> 0 \<Longrightarrow> reviewCompare b c \<le> 0 \<Longrightarrow> reviewCompare a c \<le> 0"
  by (auto simp: reviewCompare_le_0 split: option.splits)

lemma reviewCompare_swap: "0 < reviewCompare a b \<Longrightarrow> reviewCompare b a \<le> 0"
  by (auto simp: reviewCompare_def split: option.splits)

text \<open>The insertion engine returns its argument in an order the comparison agrees with.\<close>

lemma set_sort_insert: "set (sort_insert cmp x ys) = insert x (set ys)"
  by (induction ys) auto

lemma mset_sort_insert: "mset (sort_insert cmp x ys) = add_mset x (mset ys)"
  by (induction ys) auto

lemma sorted_sort_insert:
  "sorted_wrt (\<lambda>a b. reviewCompare a b \<le> 0) ys \<Longrightarrow>
   sorted_wrt (\<lambda>a b. reviewCompare a b \<le> 0) (sort_insert reviewCompare x ys)"
proof (induction ys)
  case Nil
  then show ?case by simp
next
  case (Cons y ys)
  show ?case
  proof (cases "0 < reviewCompare x y")
    case True
    with Cons show ?thesis
      by (auto simp: set_sort_insert reviewCompare_swap)
  next
    case False
    then have xy: "reviewCompare x y \<le> 0" by simp
    with Cons.prems have "\<forall>z \<in> set ys. reviewCompare x z \<le> 0"
      by (auto intro: reviewCompare_trans)
    with False xy Cons.prems show ?thesis by simp
  qed
qed

lemma mset_insertion_loop:
  "mset (foldl (\<lambda>sorted x. sort_insert cmp x sorted) acc xs) = mset acc + mset xs"
  by (induction xs arbitrary: acc) (simp_all add: mset_sort_insert)

lemma sorted_insertion_loop:
  "sorted_wrt (\<lambda>a b. reviewCompare a b \<le> 0) acc \<Longrightarrow>
   sorted_wrt (\<lambda>a b. reviewCompare a b \<le> 0)
     (foldl (\<lambda>sorted x. sort_insert reviewCompare x sorted) acc xs)"
  by (induction xs arbitrary: acc) (simp_all add: sorted_sort_insert)

lemma insertionEngine_ordersBy: "ordersBy reviewCompare xs (insertionEngine reviewCompare xs)"
  using sorted_insertion_loop [of "[]" xs]
  by (simp add: ordersBy_def insertionEngine_def mset_insertion_loop)

lemma sorted_wrt_take_drop:
  "sorted_wrt R xs \<Longrightarrow> x \<in> set (take n xs) \<Longrightarrow> y \<in> set (drop n xs) \<Longrightarrow> R x y"
  using sorted_wrt_append [of R "take n xs" "drop n xs"] by simp

lemma sorted_wrt_take: "sorted_wrt R xs \<Longrightarrow> sorted_wrt R (take n xs)"
  by (metis append_take_drop_id sorted_wrt_append)




section \<open>Properties of quiz completion\<close>

lemma find_first:
  "(\<forall>x \<in> set before. \<not> P x) \<Longrightarrow> P m \<Longrightarrow> find P (before @ m # after) = Some m"
  by (induction before) auto

lemma replace_first_first:
  "(\<forall>x \<in> set before. \<not> P x) \<Longrightarrow> P m \<Longrightarrow>
   replace_first P f (before @ m # after) = before @ f m # after"
  by (induction before) auto

lemma find_none: "(\<forall>x \<in> set xs. \<not> P x) \<Longrightarrow> find P xs = None"
  by (induction xs) auto

text \<open>
  C7, as the code has it. The quiz store's \<open>completeQuiz\<close>, given a module key and a
  score: when the score is below 70, or the module store's loaded list has no module
  with that key, the application state stays as it is. When the score is at least 70
  and the loaded list has such a module, the state changes in two places and nowhere
  else: in the database every module row with that key gets \<^verbatim>\<open>completed = true\<close> and
  \<^verbatim>\<open>progress = 100\<close>, and in the loaded list the first module with that key gets the same
  two values, every other entry of the list staying in its place.
\<close>

theorem completeQuiz_gate:
  "(n < 70 \<or> (\<forall>x \<in> set (ms_modules (moduleS s)). m_id x \<noteq> moduleId) \<longrightarrow>
      completeQuiz moduleId n s = s)
   \<and> (\<forall>before m after.
        70 \<le> n \<and> ms_modules (moduleS s) = before @ m # after
        \<and> (\<forall>x \<in> set before. m_id x \<noteq> moduleId) \<and> m_id m = moduleId \<longrightarrow>
        completeQuiz moduleId n s =
          s\<lparr>database := (database s)\<lparr>modules :=
               map (\<lambda>r. if m_id r = moduleId then r\<lparr>m_completed := True, progress := 100\<rparr> else r)
                   (modules (database s))\<rparr>,
            moduleS := (moduleS s)\<lparr>ms_modules :=
               before @ m\<lparr>m_completed := True, progress := 100\<rparr> # after\<rparr>\<rparr>)"
proof -
  have low: "n < 70 \<Longrightarrow> completeQuiz moduleId n s = s"
    by (simp add: completeQuiz_def split: option.splits)
  have absent: "\<forall>x \<in> set (ms_modules (moduleS s)). m_id x \<noteq> moduleId \<Longrightarrow>
                completeQuiz moduleId n s = s"
    using find_none [of "ms_modules (moduleS s)" "\<lambda>m. m_id m = moduleId"]
    by (simp add: completeQuiz_def getModuleById_def)
  have marked: "completeQuiz moduleId n s =
          s\<lparr>database := (database s)\<lparr>modules :=
               map (\<lambda>r. if m_id r = moduleId then r\<lparr>m_completed := True, progress := 100\<rparr> else r)
                   (modules (database s))\<rparr>,
            moduleS := (moduleS s)\<lparr>ms_modules :=
               before @ m\<lparr>m_completed := True, progress := 100\<rparr> # after\<rparr>\<rparr>"
    if n: "70 \<le> n" and l: "ms_modules (moduleS s) = before @ m # after"
      and b: "\<forall>x \<in> set before. m_id x \<noteq> moduleId" and m: "m_id m = moduleId"
    for before m after
  proof -
    have f: "find (\<lambda>m. m_id m = moduleId) (before @ m # after) = Some m"
      using b m by (intro find_first) auto
    have r: "replace_first (\<lambda>m. m_id m = moduleId) markCompleted (before @ m # after)
             = before @ markCompleted m # after"
      using b m by (intro replace_first_first) auto
    show ?thesis
      using n
      by (simp add: completeQuiz_def getModuleById_def l f r updateModule_def
            modules_table_update_def markCompleted_def)
  qed
  show ?thesis
    using low absent marked by blast
qed

text \<open>
  With module 1 loaded, a score of 70 marks it completed with progress 100 in the
  database and in the loaded list, and a score of 69 changes nothing.
\<close>

theorem completeQuiz_gate_witness:
  "ms_modules (moduleS (app_of (db_four False) [module_row 1])) = [] @ module_row 1 # []
   \<and> m_id (module_row 1) = 1
   \<and> completeQuiz 1 70 (app_of (db_four False) [module_row 1])
       = app_of ((db_four False)\<lparr>modules := [(module_row 1)\<lparr>m_completed := True, progress := 100\<rparr>]\<rparr>)
                [(module_row 1)\<lparr>m_completed := True, progress := 100\<rparr>]
   \<and> completeQuiz 1 69 (app_of (db_four False) [module_row 1])
       = app_of (db_four False) [module_row 1]"
proof -
  let ?s = "app_of (db_four False) [module_row 1]"
  have l: "ms_modules (moduleS ?s) = [] @ module_row 1 # []"
    by (simp add: app_of_def)
  have kk: "m_id (module_row i) = i" for i
    by (simp add: module_row_def)
  have k: "m_id (module_row 1) = 1"
    by (simp add: module_row_def)
  have "completeQuiz 1 70 ?s =
          ?s\<lparr>database := (database ?s)\<lparr>modules :=
               map (\<lambda>r. if m_id r = 1 then r\<lparr>m_completed := True, progress := 100\<rparr> else r)
                   (modules (database ?s))\<rparr>,
            moduleS := (moduleS ?s)\<lparr>ms_modules :=
               [] @ (module_row 1)\<lparr>m_completed := True, progress := 100\<rparr> # []\<rparr>\<rparr>"
    using completeQuiz_gate [of 70 ?s 1, THEN conjunct2, rule_format,
        of "[]" "module_row 1" "[]"] l k by simp
  then have a: "completeQuiz 1 70 ?s
       = app_of ((db_four False)\<lparr>modules := [(module_row 1)\<lparr>m_completed := True, progress := 100\<rparr>]\<rparr>)
                [(module_row 1)\<lparr>m_completed := True, progress := 100\<rparr>]"
    by (simp add: app_of_def db_four_def kk)
  have b: "completeQuiz 1 69 ?s = ?s"
    using completeQuiz_gate [of 69 ?s 1] by simp
  show ?thesis
    using l k a b by simp
qed

text \<open>
  The gate does not hold of every completed quiz: a score of 100 for module 1 marks
  nothing while the module store has not loaded its list. The module's row keeps
  \<^verbatim>\<open>completed = false\<close> and progress 0.
\<close>

theorem completeQuiz_gate_fails:
  "completeQuiz 1 100 (app_of (db_four False) []) = app_of (db_four False) []
   \<and> map m_completed (modules (database (completeQuiz 1 100 (app_of (db_four False) []))))
       = [False]
   \<and> map progress (modules (database (completeQuiz 1 100 (app_of (db_four False) []))))
       = [0]"
  by (simp add: completeQuiz_def getModuleById_def app_of_def db_four_def module_row_def)


section \<open>Properties of the quiz session\<close>





section \<open>Properties of quiz generation\<close>

text \<open>
  C2. When the module has fewer than 4 words, \<open>generateQuizForModule\<close> fails: it returns
  \<^verbatim>\<open>false\<close> with the store's error set to the message that there are not enough
  vocabulary items, which is how this code reports the insufficient pool to its caller.
  The call adds no question: the table has no row it did not have before, the key
  generator has not moved, and the store's question list and current question are as
  they were.
\<close>

theorem generateQuizForModule_too_few:
  assumes "length (filter (inModule moduleId) (vocabulary (database s))) < 4"
  shows "(let r = generateQuizForModule rnd moduleId s; s' = snd r
          in fst r = Inr ReturnedFalse
           \<and> qs_error (quizS s') = Some notEnough
           \<and> set (quizzes (database s')) \<subseteq> set (quizzes (database s))
           \<and> nextQuizId (database s') = nextQuizId (database s)
           \<and> qs_quizzes (quizS s') = qs_quizzes (quizS s)
           \<and> currentQuiz (quizS s') = currentQuiz (quizS s)
           \<and> quizResults (quizS s') = quizResults (quizS s))"
  using assms
  by (auto simp: generateQuizForModule_def Let_def fetchVocabularyByModule_def
        deleteQuizzesOfModule_def)

text \<open>With three words in module 1 the call returns \<^verbatim>\<open>false\<close> and stores nothing.\<close>

theorem generateQuizForModule_too_few_witness:
  "length (filter (inModule 1) (vocabulary (database (app_of db_three [])))) < 4
   \<and> fst (generateQuizForModule no_shuffle 1 (app_of db_three [])) = Inr ReturnedFalse
   \<and> qs_error (quizS (snd (generateQuizForModule no_shuffle 1 (app_of db_three []))))
       = Some notEnough
   \<and> nextQuizId (database (snd (generateQuizForModule no_shuffle 1 (app_of db_three [])))) = 4
   \<and> qs_quizzes (quizS (snd (generateQuizForModule no_shuffle 1 (app_of db_three [])))) = []"
proof -
  have h: "length (filter (inModule 1) (vocabulary (database (app_of db_three [])))) < 4"
    by (simp add: app_of_def db_three_def four_words_def word_def inModule_def)
  have e: "nextQuizId (database (app_of db_three [])) = 4"
    "qs_quizzes (quizS (app_of db_three [])) = []"
    by (simp_all add: app_of_def db_three_def)
  show ?thesis
    using generateQuizForModule_too_few [OF h, of no_shuffle, unfolded Let_def] h e
    by simp
qed

text \<open>
  C10. When the module has fewer than 4 words, the failed call has deleted the module's
  stored questions: afterwards the table holds no question of that module, and holds
  the questions of the other modules as before.
\<close>

theorem generateQuizForModule_too_few_deletes:
  assumes "length (filter (inModule moduleId) (vocabulary (database s))) < 4"
  shows "(let s' = snd (generateQuizForModule rnd moduleId s)
          in filter (ofModule moduleId) (quizzes (database s')) = []
           \<and> quizzes (database s') = filter (\<lambda>q. \<not> ofModule moduleId q) (quizzes (database s)))"
  using assms
  by (auto simp: generateQuizForModule_def Let_def fetchVocabularyByModule_def
        deleteQuizzesOfModule_def filter_empty_conv)

text \<open>The two stored questions of module 1 are gone after the failed call; that of module 2 stays.\<close>

theorem generateQuizForModule_too_few_deletes_witness:
  "length (filter (inModule 1) (vocabulary (database (app_of db_three [])))) < 4
   \<and> filter (ofModule 1) (quizzes (database (app_of db_three [])))
       = [old_question 1 1, old_question 3 1]
   \<and> filter (ofModule 1)
        (quizzes (database (snd (generateQuizForModule no_shuffle 1 (app_of db_three []))))) = []
   \<and> quizzes (database (snd (generateQuizForModule no_shuffle 1 (app_of db_three []))))
       = [old_question 2 2]"
proof -
  have h: "length (filter (inModule 1) (vocabulary (database (app_of db_three [])))) < 4"
    by (simp add: app_of_def db_three_def four_words_def word_def inModule_def)
  have q: "quizzes (database (app_of db_three []))
           = [old_question 1 1, old_question 2 2, old_question 3 1]"
    by (simp add: app_of_def db_three_def)
  have o: "ofModule m (old_question k m') = (m' = m)" for m k m'
    by (simp add: ofModule_def old_question_def)
  show ?thesis
    using generateQuizForModule_too_few_deletes [OF h, of no_shuffle, unfolded Let_def] h
    by (simp add: q o)
qed

subsection \<open>Shuffling and the loops\<close>

lemma mset_shuffle_by: "mset (shuffle_by ks xs) = mset xs"
proof (induction ks arbitrary: xs)
  case Nil
  then show ?case by simp
next
  case (Cons k ks)
  show ?case
  proof (cases "xs = []")
    case True
    then show ?thesis by simp
  next
    case False
    let ?i = "k mod length xs"
    from False have i: "?i < length xs" by simp
    have "mset xs = mset (take ?i xs @ xs ! ?i # drop (Suc ?i) xs)"
      using id_take_nth_drop [OF i] by simp
    then show ?thesis
      using False Cons.IH [of "take ?i xs @ drop (Suc ?i) xs"] by (simp add: Let_def)
  qed
qed

lemma length_shuffle_by: "length (shuffle_by ks xs) = length xs"
  using mset_shuffle_by [of ks xs] by (rule mset_eq_length)

lemma set_shuffle_by: "set (shuffle_by ks xs) = set xs"
  using mset_shuffle_by [of ks xs] by (rule mset_eq_setD)

lemma distinct_shuffle_by: "distinct (shuffle_by ks xs) = distinct xs"
  using mset_shuffle_by [of ks xs] by (rule mset_eq_imp_distinct_iff)

lemma for_push_all:
  "(\<And>i. i \<in> set ixs \<Longrightarrow> body i = Inr (f i)) \<Longrightarrow> for_push body ixs acc = Inr (acc @ map f ixs)"
  by (induction ixs arbitrary: acc) auto

lemma filter_same_key:
  "distinct (map f xs) \<Longrightarrow> x \<in> set xs \<Longrightarrow> filter (\<lambda>y. f y = f x) xs = [x]"
proof (induction xs)
  case Nil
  then show ?case by simp
next
  case (Cons a xs)
  show ?case
  proof (cases "a = x")
    case True
    with Cons.prems have "f x \<notin> f ` set xs" by simp
    then have "\<forall>y \<in> set xs. f y \<noteq> f x" by (metis imageI)
    then have "filter (\<lambda>y. f y = f x) xs = []" by (simp add: filter_empty_conv)
    with True show ?thesis by simp
  next
    case False
    with Cons.prems have "x \<in> set xs" "f a \<noteq> f x" by auto
    with Cons show ?thesis by simp
  qed
qed

lemma others_mset:
  assumes "distinct (map f xs)" "x \<in> set xs"
  shows "add_mset x (mset (filter (\<lambda>y. f y \<noteq> f x) xs)) = mset xs"
proof -
  have "mset xs = mset (filter (\<lambda>y. f y = f x) xs) + mset (filter (\<lambda>y. \<not> f y = f x) xs)"
    by (simp only: mset_filter multiset_partition [symmetric])
  then show ?thesis
    using filter_same_key [OF assms] by simp
qed

lemma others_length:
  assumes "distinct (map f xs)" "x \<in> set xs"
  shows "Suc (length (filter (\<lambda>y. f y \<noteq> f x) xs)) = length xs"
  using sum_length_filter_compl [of "\<lambda>y. f y = f x" xs] filter_same_key [OF assms]
  by (simp add: comp_def)

subsection \<open>The multiple-choice questions\<close>

lemma multipleChoice_eq:
  "i < length vocab \<Longrightarrow>
   multipleChoice rnd moduleId vocab i =
     Inr \<lparr>q_id = None, q_moduleId = moduleId, q_type = ''multiple-choice'',
          question = ''Traduisez: '' @ portuguese (vocab ! i),
          options = Some (shuffle_by (rnd (2 * i + 1))
                      (map french (incorrectItems rnd vocab i (vocab ! i)) @ [french (vocab ! i)])),
          answer = french (vocab ! i), q_completed = False\<rparr>"
  by (simp add: multipleChoice_def at_index_def Let_def)

lemma incorrectItems_props:
  assumes len: "4 \<le> length vocab" and ids: "distinct (map v_id vocab)" and i: "i < length vocab"
  shows "length (incorrectItems rnd vocab i (vocab ! i)) = 3"
    and "distinct (incorrectItems rnd vocab i (vocab ! i))"
    and "set (incorrectItems rnd vocab i (vocab ! i)) \<subseteq> set vocab"
    and "\<forall>d \<in> set (incorrectItems rnd vocab i (vocab ! i)). v_id d \<noteq> v_id (vocab ! i)"
    and "vocab ! i \<notin> set (incorrectItems rnd vocab i (vocab ! i))"
proof -
  let ?c = "vocab ! i"
  let ?others = "filter (\<lambda>item. v_id item \<noteq> v_id ?c) vocab"
  let ?sh = "shuffle_by (rnd (2 * i)) ?others"
  have ds: "incorrectItems rnd vocab i ?c = take 3 ?sh"
    by (simp add: incorrectItems_def slice0_def)
  from i have c: "?c \<in> set vocab" by simp
  have "Suc (length ?others) = length vocab"
    using ids c by (rule others_length)
  with len have "3 \<le> length ?sh"
    by (simp add: length_shuffle_by)
  then show "length (incorrectItems rnd vocab i ?c) = 3"
    unfolding ds by simp
  from ids have "distinct vocab"
    by (rule distinct_map [THEN iffD1, THEN conjunct1])
  then have "distinct ?sh"
    by (simp add: distinct_shuffle_by)
  then show "distinct (incorrectItems rnd vocab i ?c)"
    unfolding ds by simp
  have sub: "set (incorrectItems rnd vocab i ?c) \<subseteq> set ?others"
    unfolding ds using set_take_subset [of 3 ?sh] by (simp add: set_shuffle_by)
  then show "set (incorrectItems rnd vocab i ?c) \<subseteq> set vocab"
    by auto
  from sub show other: "\<forall>d \<in> set (incorrectItems rnd vocab i ?c). v_id d \<noteq> v_id ?c"
    by auto
  then show "?c \<notin> set (incorrectItems rnd vocab i ?c)"
    by auto
qed

lemma options_props:
  fixes rnd :: "nat \<Rightarrow> nat list" and vocab :: "Vocabulary list" and i :: nat
  assumes len: "4 \<le> length vocab" and ids: "distinct (map v_id vocab)" and i: "i < length vocab"
  defines "opts \<equiv> shuffle_by (rnd (2 * i + 1))
                      (map french (incorrectItems rnd vocab i (vocab ! i)) @ [french (vocab ! i)])"
  shows "length opts = 4"
    and "mset opts = add_mset (french (vocab ! i))
                       (mset (map french (incorrectItems rnd vocab i (vocab ! i))))"
    and "french (vocab ! i) \<in> set opts"
    and "distinct (map french vocab) \<Longrightarrow> distinct opts"
    and "distinct (map french vocab) \<Longrightarrow> count_list opts (french (vocab ! i)) = 1"
proof -
  let ?c = "vocab ! i"
  let ?ds = "incorrectItems rnd vocab i ?c"
  note p = incorrectItems_props [OF len ids i, of rnd]
  show "length opts = 4"
    unfolding opts_def by (simp add: length_shuffle_by p(1))
  show m: "mset opts = add_mset (french ?c) (mset (map french ?ds))"
    unfolding opts_def by (simp add: mset_shuffle_by)
  show mem: "french ?c \<in> set opts"
    unfolding opts_def by (simp add: set_shuffle_by)
  {
    assume fr: "distinct (map french vocab)"
    then have inj: "inj_on french (set vocab)"
      by (rule distinct_map [THEN iffD1, THEN conjunct2])
    from i have "?c \<in> set vocab" by simp
    with p(3) have "set (?ds @ [?c]) \<subseteq> set vocab"
      by simp
    with inj have "inj_on french (set (?ds @ [?c]))"
      by (rule inj_on_subset)
    moreover from p(2) p(5) have "distinct (?ds @ [?c])" by simp
    ultimately have "distinct (map french (?ds @ [?c]))"
      by (simp only: distinct_map)
    then show d: "distinct opts"
      unfolding opts_def by (simp add: distinct_shuffle_by)
    from d mem have "count (mset opts) (french ?c) = 1"
      by (simp add: distinct_count_atmost_1)
    then show "count_list opts (french ?c) = 1"
      by (simp add: count_mset)
  }
qed

text \<open>
  C3, as the code has it. For a pool of at least 4 words with distinct keys, the
  multiple-choice loop makes one question for each of the first \<open>min(length, 5)\<close> words.
  The question's answer is the word's French text. Its distractors are the French texts
  of 3 different words of the pool, none of them the word itself (they are chosen by
  key); its options are the 3 distractors and the answer, shuffled, so there are 4 and
  the answer is among them. When the French texts of the pool are pairwise different,
  the 4 options are pairwise different and the answer occurs exactly once.
\<close>

theorem multipleChoice_questions:
  assumes "4 \<le> length vocab" and "distinct (map v_id vocab)"
  shows "\<exists>qs. for_push (multipleChoice rnd moduleId vocab) [0 ..< min (length vocab) 5] [] = Inr qs
            \<and> length qs = min (length vocab) 5
            \<and> (\<forall>i < length qs.
                 let q = qs ! i; correctItem = vocab ! i;
                     ds = incorrectItems rnd vocab i correctItem
                 in q_type q = ''multiple-choice'' \<and> answer q = french correctItem
                  \<and> length ds = 3 \<and> distinct ds \<and> set ds \<subseteq> set vocab
                  \<and> (\<forall>d \<in> set ds. v_id d \<noteq> v_id correctItem) \<and> correctItem \<notin> set ds
                  \<and> (\<exists>opts. options q = Some opts \<and> length opts = 4
                        \<and> mset opts = add_mset (french correctItem) (mset (map french ds))
                        \<and> answer q \<in> set opts
                        \<and> (distinct (map french vocab) \<longrightarrow>
                              distinct opts \<and> count_list opts (answer q) = 1)))"
proof -
  let ?n = "min (length vocab) 5"
  let ?f = "\<lambda>i. \<lparr>q_id = None, q_moduleId = moduleId, q_type = ''multiple-choice'',
          question = ''Traduisez: '' @ portuguese (vocab ! i),
          options = Some (shuffle_by (rnd (2 * i + 1))
                      (map french (incorrectItems rnd vocab i (vocab ! i)) @ [french (vocab ! i)])),
          answer = french (vocab ! i), q_completed = False\<rparr>"
  have run: "for_push (multipleChoice rnd moduleId vocab) [0 ..< ?n] [] = Inr ([] @ map ?f [0 ..< ?n])"
    by (rule for_push_all) (simp add: multipleChoice_eq)
  have each: "let q = map ?f [0 ..< ?n] ! i; correctItem = vocab ! i;
                     ds = incorrectItems rnd vocab i correctItem
                 in q_type q = ''multiple-choice'' \<and> answer q = french correctItem
                  \<and> length ds = 3 \<and> distinct ds \<and> set ds \<subseteq> set vocab
                  \<and> (\<forall>d \<in> set ds. v_id d \<noteq> v_id correctItem) \<and> correctItem \<notin> set ds
                  \<and> (\<exists>opts. options q = Some opts \<and> length opts = 4
                        \<and> mset opts = add_mset (french correctItem) (mset (map french ds))
                        \<and> answer q \<in> set opts
                        \<and> (distinct (map french vocab) \<longrightarrow>
                              distinct opts \<and> count_list opts (answer q) = 1))"
    if "i < ?n" for i
  proof -
    from that have i: "i < length vocab" by simp
    note p = incorrectItems_props [OF assms i, of rnd]
    note o = options_props [OF assms i, of rnd]
    from that have nth: "map ?f [0 ..< ?n] ! i = ?f i" by simp
    show ?thesis
      unfolding Let_def nth using p o by simp
  qed
  show ?thesis
    using run each by simp
qed

text \<open>
  For the four example words, whose French texts differ, the loop makes four questions;
  the first has 4 different options, among which its answer occurs once.
\<close>

theorem multipleChoice_questions_witness:
  "4 \<le> length (four_words False) \<and> distinct (map v_id (four_words False))
   \<and> distinct (map french (four_words False))
   \<and> (\<exists>qs. for_push (multipleChoice no_shuffle 1 (four_words False))
               [0 ..< min (length (four_words False)) 5] [] = Inr qs
            \<and> length qs = 4
            \<and> (\<exists>opts. options (qs ! 0) = Some opts \<and> length opts = 4 \<and> distinct opts
                   \<and> count_list opts (answer (qs ! 0)) = 1))"
proof -
  have h: "4 \<le> length (four_words False)" "distinct (map v_id (four_words False))"
    "distinct (map french (four_words False))" "min (length (four_words False)) 5 = 4"
    by (simp_all add: four_words_def word_def)
  from multipleChoice_questions [OF h(1,2), of no_shuffle 1, unfolded Let_def h(4)]
  obtain qs where qs:
    "for_push (multipleChoice no_shuffle 1 (four_words False)) [0 ..< 4] [] = Inr qs"
    "length qs = 4"
    "\<forall>i < length qs. \<exists>opts. options (qs ! i) = Some opts \<and> length opts = 4
        \<and> (distinct (map french (four_words False)) \<longrightarrow>
              distinct opts \<and> count_list opts (answer (qs ! i)) = 1)"
    by blast
  from qs(2,3) h(3) have "\<exists>opts. options (qs ! 0) = Some opts \<and> length opts = 4 \<and> distinct opts
                   \<and> count_list opts (answer (qs ! 0)) = 1"
    by auto
  with qs(1,2) h show ?thesis by auto
qed

text \<open>
  When two words of the pool share their French text the options repeat it. The words
  \<open>casa\<close> and \<open>lar\<close> both translate to \<open>maison\<close>: the question for \<open>casa\<close> has the
  answer \<open>maison\<close> twice among its options, and the question for \<open>carro\<close> has the
  distractor \<open>maison\<close> twice.
\<close>

theorem multipleChoice_repeated_option:
  "4 \<le> length synonym_words
   \<and> options (qs_quizzes (quizS (snd (generateQuizForModule no_shuffle 1
         (app_of (db_of synonym_words) [])))) ! 0)
       = Some [''maison'', ''voiture'', ''livre'', ''maison'']
   \<and> answer (qs_quizzes (quizS (snd (generateQuizForModule no_shuffle 1
         (app_of (db_of synonym_words) [])))) ! 0) = ''maison''
   \<and> count_list [''maison'', ''voiture'', ''livre'', ''maison''] ''maison'' = 2
   \<and> options (qs_quizzes (quizS (snd (generateQuizForModule no_shuffle 1
         (app_of (db_of synonym_words) [])))) ! 2)
       = Some [''maison'', ''maison'', ''livre'', ''voiture'']
   \<and> answer (qs_quizzes (quizS (snd (generateQuizForModule no_shuffle 1
         (app_of (db_of synonym_words) [])))) ! 2) = ''voiture''"
  by code_simp

subsection \<open>The windows of the fill-in-blank and audio loops\<close>

lemma fillInBlank_eq:
  "(if i + 5 > length vocab then i else i + 5) < length vocab \<Longrightarrow>
   \<exists>q. fillInBlank moduleId vocab i = Inr q \<and> q_moduleId q = moduleId
        \<and> q_type q = ''fill-in-blank'' \<and> options q = None
        \<and> answer q = portuguese (vocab ! (if i + 5 > length vocab then i else i + 5))"
  by (simp add: fillInBlank_def at_index_def)

lemma audioQuestion_eq:
  "(if i + 8 > length vocab then i else i + 8) < length vocab \<Longrightarrow>
   \<exists>q. audioQuestion moduleId vocab i = Inr q \<and> q_moduleId q = moduleId
        \<and> q_type q = ''audio'' \<and> options q = None
        \<and> answer q = portuguese (vocab ! (if i + 8 > length vocab then i else i + 8))"
  by (simp add: audioQuestion_def at_index_def)

lemma fillInBlank_raise:
  "\<not> (if i + 5 > length vocab then i else i + 5) < length vocab \<Longrightarrow>
   fillInBlank moduleId vocab i = Inl TypeError"
  by (simp add: fillInBlank_def at_index_def)

lemma audioQuestion_raise:
  "\<not> (if i + 8 > length vocab then i else i + 8) < length vocab \<Longrightarrow>
   audioQuestion moduleId vocab i = Inl TypeError"
  by (simp add: audioQuestion_def at_index_def)

lemma for_push_total:
  assumes "\<And>i. i \<in> set ixs \<Longrightarrow> \<exists>q. body i = Inr q \<and> P q"
  shows "\<exists>qs. for_push body ixs acc = Inr (acc @ qs) \<and> length qs = length ixs
              \<and> (\<forall>k < length ixs. body (ixs ! k) = Inr (qs ! k) \<and> P (qs ! k))"
  using assms
proof (induction ixs arbitrary: acc)
  case Nil
  then show ?case by simp
next
  case (Cons i ixs)
  from Cons.prems [of i] obtain q where q: "body i = Inr q" "P q" by auto
  from Cons.IH [of "acc @ [q]"] Cons.prems
  obtain qs where qs: "for_push body ixs (acc @ [q]) = Inr ((acc @ [q]) @ qs)"
    "length qs = length ixs" "\<forall>k < length ixs. body (ixs ! k) = Inr (qs ! k) \<and> P (qs ! k)"
    by auto
  have "\<forall>k < length (i # ixs). body ((i # ixs) ! k) = Inr ((q # qs) ! k) \<and> P ((q # qs) ! k)"
    using q qs(3) by (auto simp: nth_Cons split: nat.splits)
  with q qs(1,2) show ?case
    by (intro exI [of _ "q # qs"]) simp
qed

lemma for_push_first_raise:
  assumes "\<And>i. i \<in> set ixs \<Longrightarrow> \<exists>q. body i = Inr q" and "body j = Inl e"
  shows "for_push body (ixs @ j # rest) acc = Inl e"
  using assms
proof (induction ixs arbitrary: acc)
  case Nil
  then show ?case by simp
next
  case (Cons i ixs)
  from Cons.prems(1) [of i] obtain q where "body i = Inr q" by auto
  with Cons show ?case by simp
qed

lemma upt_0_3: "[0 ..< 3] = [0, 1, 2::nat]"
  by code_simp

lemma upt_0_2: "[0 ..< 2] = [0, 1::nat]"
  by code_simp

lemma multipleChoice_loop:
  "\<exists>qs. for_push (multipleChoice rnd moduleId vocab) [0 ..< min (length vocab) 5] [] = Inr qs
        \<and> length qs = min (length vocab) 5"
proof -
  have "\<exists>q. multipleChoice rnd moduleId vocab i = Inr q \<and> True"
    if "i \<in> set [0 ..< min (length vocab) 5]" for i
    using that by (simp add: multipleChoice_eq)
  from for_push_total [of "[0 ..< min (length vocab) 5]" "multipleChoice rnd moduleId vocab"
      "\<lambda>q. True" "[]", OF this]
  show ?thesis by auto
qed

lemma fillInBlank_loop_raise:
  assumes "5 \<le> length vocab" "length vocab \<le> 7"
  shows "for_push (fillInBlank moduleId vocab) [0 ..< min (length vocab) 3] acc = Inl TypeError"
proof -
  from assms have m: "min (length vocab) 3 = 3" by simp
  from assms consider "length vocab = 5" | "length vocab = 6" | "length vocab = 7"
    by linarith
  then show ?thesis
  proof cases
    case 1
    then have "fillInBlank moduleId vocab 0 = Inl TypeError"
      by (simp add: fillInBlank_raise)
    then show ?thesis
      unfolding m upt_0_3 by simp
  next
    case 2
    then have ok: "\<exists>q. fillInBlank moduleId vocab i = Inr q" if "i \<in> set [0]" for i
      using that fillInBlank_eq [where i = 0 and vocab = vocab and moduleId = moduleId] by auto
    from 2 have "fillInBlank moduleId vocab 1 = Inl TypeError"
      by (simp add: fillInBlank_raise)
    from for_push_first_raise [where ixs = "[0]" and j = 1
        and body = "fillInBlank moduleId vocab", OF ok this] show ?thesis
      unfolding m upt_0_3 by simp
  next
    case 3
    then have ok: "\<exists>q. fillInBlank moduleId vocab i = Inr q" if "i \<in> set [0, 1]" for i
      using that fillInBlank_eq [where i = 0 and vocab = vocab and moduleId = moduleId] fillInBlank_eq [where i = 1 and vocab = vocab and moduleId = moduleId] by auto
    from 3 have "fillInBlank moduleId vocab 2 = Inl TypeError"
      by (simp add: fillInBlank_raise)
    from for_push_first_raise [where ixs = "[0, 1]" and j = 2
        and body = "fillInBlank moduleId vocab", OF ok this] show ?thesis
      unfolding m upt_0_3 by simp
  qed
qed

lemma fillInBlank_loop:
  assumes "length vocab = 4 \<or> 8 \<le> length vocab"
  shows "\<exists>qs. for_push (fillInBlank moduleId vocab) [0 ..< min (length vocab) 3] acc = Inr (acc @ qs)
           \<and> length qs = 3"
proof -
  from assms have m: "min (length vocab) 3 = 3" by auto
  have "\<exists>q. fillInBlank moduleId vocab i = Inr q \<and> True" if "i \<in> set [0 ..< 3]" for i
  proof -
    from that assms have "(if i + 5 > length vocab then i else i + 5) < length vocab" by auto
    from fillInBlank_eq [OF this] show ?thesis by auto
  qed
  from for_push_total [of "[0 ..< 3]" "fillInBlank moduleId vocab" "\<lambda>q. True" acc, OF this]
  show ?thesis unfolding m by auto
qed

lemma audioQuestion_loop_raise:
  assumes "8 \<le> length vocab" "length vocab \<le> 9"
  shows "for_push (audioQuestion moduleId vocab) [0 ..< min (length vocab) 2] acc = Inl TypeError"
proof -
  from assms have m: "min (length vocab) 2 = 2" by simp
  from assms consider "length vocab = 8" | "length vocab = 9"
    by linarith
  then show ?thesis
  proof cases
    case 1
    then have "audioQuestion moduleId vocab 0 = Inl TypeError"
      by (simp add: audioQuestion_raise)
    then show ?thesis
      unfolding m upt_0_2 by simp
  next
    case 2
    then have ok: "\<exists>q. audioQuestion moduleId vocab i = Inr q" if "i \<in> set [0]" for i
      using that audioQuestion_eq [where i = 0 and vocab = vocab and moduleId = moduleId] by auto
    from 2 have "audioQuestion moduleId vocab 1 = Inl TypeError"
      by (simp add: audioQuestion_raise)
    from for_push_first_raise [where ixs = "[0]" and j = 1
        and body = "audioQuestion moduleId vocab", OF ok this] show ?thesis
      unfolding m upt_0_2 by simp
  qed
qed

lemma audioQuestion_loop:
  assumes "length vocab = 4 \<or> 10 \<le> length vocab"
  shows "\<exists>qs. for_push (audioQuestion moduleId vocab) [0 ..< min (length vocab) 2] acc = Inr (acc @ qs)
           \<and> length qs = 2"
proof -
  from assms have m: "min (length vocab) 2 = 2" by auto
  have "\<exists>q. audioQuestion moduleId vocab i = Inr q \<and> True" if "i \<in> set [0 ..< 2]" for i
  proof -
    from that assms have "(if i + 8 > length vocab then i else i + 8) < length vocab" by auto
    from audioQuestion_eq [OF this] show ?thesis by auto
  qed
  from for_push_total [of "[0 ..< 2]" "audioQuestion moduleId vocab" "\<lambda>q. True" acc, OF this]
  show ?thesis unfolding m by auto
qed

text \<open>
  The windows of the two later loops: with 5 to 9 words one of them reads past the end
  of the pool and the generation raises; with 4 words, or 10 and more, it does not.
\<close>

lemma newQuizzesFor_raises:
  assumes "5 \<le> length vocab" "length vocab \<le> 9"
  shows "newQuizzesFor rnd moduleId vocab = Inl TypeError"
proof -
  obtain q1 where q1: "for_push (multipleChoice rnd moduleId vocab)
                         [0 ..< min (length vocab) 5] [] = Inr q1"
    using multipleChoice_loop [of rnd moduleId vocab] by auto
  show ?thesis
  proof (cases "length vocab \<le> 7")
    case True
    show ?thesis
      unfolding newQuizzesFor_def
      by (simp only: q1 sum.case fillInBlank_loop_raise [OF assms(1) True])
  next
    case False
    then have 8: "8 \<le> length vocab" by simp
    then obtain q2 where q2: "for_push (fillInBlank moduleId vocab)
                                [0 ..< min (length vocab) 3] q1 = Inr q2"
      using fillInBlank_loop [where vocab = vocab and moduleId = moduleId and acc = q1] by auto
    show ?thesis
      unfolding newQuizzesFor_def
      by (simp only: q1 q2 sum.case audioQuestion_loop_raise [OF 8 assms(2)])
  qed
qed

lemma newQuizzesFor_returns:
  assumes "length vocab = 4 \<or> 10 \<le> length vocab"
  shows "\<exists>qs. newQuizzesFor rnd moduleId vocab = Inr qs \<and> length qs = min (length vocab) 5 + 5"
proof -
  obtain q1 where q1: "for_push (multipleChoice rnd moduleId vocab)
                         [0 ..< min (length vocab) 5] [] = Inr q1"
      "length q1 = min (length vocab) 5"
    using multipleChoice_loop [of rnd moduleId vocab] by auto
  from assms obtain f where q2: "for_push (fillInBlank moduleId vocab)
                                [0 ..< min (length vocab) 3] q1 = Inr (q1 @ f)" "length f = 3"
    using fillInBlank_loop [where vocab = vocab and moduleId = moduleId and acc = q1] by auto
  from assms obtain a where q3: "for_push (audioQuestion moduleId vocab)
                                [0 ..< min (length vocab) 2] (q1 @ f) = Inr ((q1 @ f) @ a)"
      "length a = 2"
    using audioQuestion_loop [where vocab = vocab and moduleId = moduleId and acc = "q1 @ f"] by auto
  have "newQuizzesFor rnd moduleId vocab = Inr ((q1 @ f) @ a)"
    unfolding newQuizzesFor_def by (simp only: q1(1) q2(1) q3(1) sum.case)
  with q1(2) q2(2) q3(2) show ?thesis by simp
qed

lemma bulkAdd_stamp:
  "bulkAdd rows d =
     (if rows = [] then None else Some (nextQuizId d + length rows - 1),
      d\<lparr>quizzes := quizzes d @ map stamp (zip [nextQuizId d ..< nextQuizId d + length rows] rows),
        nextQuizId := nextQuizId d + length rows\<rparr>)"
  by (simp add: bulkAdd_def Let_def last_upt)

lemma stamped_nth:
  "i < length rows \<Longrightarrow> map stamp (zip [n ..< n + length rows] rows) ! i
                          = (rows ! i)\<lparr>q_id := Some (n + i)\<rparr>"
  by (simp add: stamp_def)

lemma stamped_types:
  "length ks = length rows \<Longrightarrow> map q_type (map stamp (zip ks rows)) = map q_type rows"
  by (induction ks rows rule: list_induct2) (simp_all add: stamp_def)

lemma stamped_ofModule:
  "\<forall>q \<in> set rows. q_moduleId q = moduleId \<Longrightarrow>
   filter (ofModule moduleId) (map stamp (zip ks rows)) = map stamp (zip ks rows)"
  by (auto simp: filter_id_conv ofModule_def stamp_def dest: set_zip_rightD)

lemma generateQuizForModule_raises:
  assumes "filter (inModule moduleId) (vocabulary (database s)) = vocab"
    and "5 \<le> length vocab" and "length vocab \<le> 9"
  shows "fst (generateQuizForModule rnd moduleId s) = Inl TypeError"
    and "quizzes (database (snd (generateQuizForModule rnd moduleId s)))
           = filter (\<lambda>q. \<not> ofModule moduleId q) (quizzes (database s))"
    and "qs_quizzes (quizS (snd (generateQuizForModule rnd moduleId s))) = qs_quizzes (quizS s)"
  using assms newQuizzesFor_raises [OF assms(2,3), of rnd moduleId]
  by (simp_all add: generateQuizForModule_def Let_def fetchVocabularyByModule_def
        deleteQuizzesOfModule_def)

lemma generateQuizForModule_stores:
  assumes "filter (inModule moduleId) (vocabulary (database s)) = vocab"
    and "4 \<le> length vocab"
    and "newQuizzesFor rnd moduleId vocab = Inr new"
    and "\<forall>q \<in> set new. q_moduleId q = moduleId"
  defines "keys \<equiv> [nextQuizId (database s) ..< nextQuizId (database s) + length new]"
  shows "fst (generateQuizForModule rnd moduleId s)
           = Inr (ReturnedKey (if new = [] then None
                               else Some (nextQuizId (database s) + length new - 1)))"
    and "qs_quizzes (quizS (snd (generateQuizForModule rnd moduleId s))) = map stamp (zip keys new)"
    and "filter (ofModule moduleId) (quizzes (database (snd (generateQuizForModule rnd moduleId s))))
           = map stamp (zip keys new)"
  using assms(1-3) stamped_ofModule [OF assms(4), of keys]
  unfolding keys_def
  by (simp_all add: generateQuizForModule_def Let_def fetchVocabularyByModule_def
        deleteQuizzesOfModule_def bulkAdd_stamp fetchQuizzesByModule_def resetQuiz_def)

text \<open>
  C4 fails on the code for pools of 5 to 9 words. With five words the fill-in-blank
  loop tests \<open>0 + 5 > 5\<close> at its first index, does not wrap, and reads index 5, past
  the end of the pool; the generation raises a \<open>TypeError\<close>, the module's stored
  questions are gone and none is saved.
\<close>

theorem generateQuizForModule_five_words_raises:
  "length five_words = 5
   \<and> at_index five_words (if 0 + 5 > length five_words then 0 else 0 + 5) = None
   \<and> fillInBlank 1 five_words 0 = Inl TypeError
   \<and> fst (generateQuizForModule no_shuffle 1 (app_of (db_of five_words) [])) = Inl TypeError
   \<and> quizzes (database (snd (generateQuizForModule no_shuffle 1 (app_of (db_of five_words) []))))
       = []"
  by code_simp

subsection \<open>A pool of exactly four words\<close>

lemma incorrectItems_of_four:
  assumes len: "length vocab = 4" and ids: "distinct (map v_id vocab)" and i: "i < length vocab"
  shows "add_mset (vocab ! i) (mset (incorrectItems rnd vocab i (vocab ! i))) = mset vocab"
proof -
  let ?c = "vocab ! i"
  let ?others = "filter (\<lambda>item. v_id item \<noteq> v_id ?c) vocab"
  let ?sh = "shuffle_by (rnd (2 * i)) ?others"
  from i have c: "?c \<in> set vocab" by simp
  have "Suc (length ?others) = length vocab"
    using ids c by (rule others_length)
  with len have "length ?sh = 3"
    by (simp add: length_shuffle_by)
  then have "incorrectItems rnd vocab i ?c = ?sh"
    by (simp add: incorrectItems_def slice0_def)
  then have "mset (incorrectItems rnd vocab i ?c) = mset ?others"
    by (simp add: mset_shuffle_by)
  with others_mset [OF ids c] show ?thesis by simp
qed

lemma replicate_nth_eq:
  "length xs = n \<Longrightarrow> (\<forall>k < n. f (xs ! k) = v) \<Longrightarrow> map f xs = replicate n v"
  by (rule nth_equalityI) simp_all

text \<open>
  C9, as the code has it. For a module whose pool is exactly 4 words with distinct
  keys, the generation succeeds and stores 9 questions: 4 multiple-choice questions,
  one for each word, then 3 fill-in-blank and 2 audio questions. Each multiple-choice
  question has 4 options, which are the French texts of the 4 words in some order, the
  answer among them. When the 4 French texts are pairwise different, the options are
  pairwise different and the answer occurs exactly once.
\<close>

theorem generateQuizForModule_four:
  assumes pool: "filter (inModule moduleId) (vocabulary (database s)) = vocab"
    and len: "length vocab = 4"
    and ids: "distinct (map v_id vocab)"
  shows "(let r = generateQuizForModule rnd moduleId s; stored = qs_quizzes (quizS (snd r))
          in fst r = Inr (ReturnedKey (Some (nextQuizId (database s) + 8)))
           \<and> filter (ofModule moduleId) (quizzes (database (snd r))) = stored
           \<and> map q_type stored = replicate 4 ''multiple-choice'' @ replicate 3 ''fill-in-blank''
                                   @ replicate 2 ''audio''
           \<and> count_where isMultipleChoice stored = 4
           \<and> (\<forall>i < 4. \<exists>opts. options (stored ! i) = Some opts
                  \<and> answer (stored ! i) = french (vocab ! i)
                  \<and> length opts = 4 \<and> mset opts = mset (map french vocab)
                  \<and> answer (stored ! i) \<in> set opts
                  \<and> (distinct (map french vocab) \<longrightarrow>
                        distinct opts \<and> count_list opts (answer (stored ! i)) = 1)))"
proof -
  let ?mc = "\<lambda>q. q_moduleId q = moduleId \<and> q_type q = ''multiple-choice''"
  let ?fb = "\<lambda>q. q_moduleId q = moduleId \<and> q_type q = ''fill-in-blank''"
  let ?au = "\<lambda>q. q_moduleId q = moduleId \<and> q_type q = ''audio''"
  from len have four: "4 \<le> length vocab" by simp
  have m: "min (length vocab) 5 = 4" "min (length vocab) 3 = 3" "min (length vocab) 2 = 2"
    using len by simp_all
  have "\<exists>q. multipleChoice rnd moduleId vocab i = Inr q \<and> ?mc q" if "i \<in> set [0 ..< 4]" for i
    using that len by (simp add: multipleChoice_eq)
  from for_push_total [where ixs = "[0 ..< 4]" and body = "multipleChoice rnd moduleId vocab"
      and P = ?mc and acc = "[]", OF this]
  obtain q1 where q1: "for_push (multipleChoice rnd moduleId vocab) [0 ..< 4] [] = Inr q1"
    "length q1 = 4" "\<forall>k < 4. multipleChoice rnd moduleId vocab k = Inr (q1 ! k) \<and> ?mc (q1 ! k)"
    by auto
  have "\<exists>q. fillInBlank moduleId vocab i = Inr q \<and> ?fb q" if "i \<in> set [0 ..< 3]" for i
  proof -
    from that len have "(if i + 5 > length vocab then i else i + 5) < length vocab" by auto
    from fillInBlank_eq [OF this] show ?thesis by auto
  qed
  from for_push_total [where ixs = "[0 ..< 3]" and body = "fillInBlank moduleId vocab"
      and P = ?fb and acc = q1, OF this]
  obtain f where f: "for_push (fillInBlank moduleId vocab) [0 ..< 3] q1 = Inr (q1 @ f)"
    "length f = 3" "\<forall>k < 3. ?fb (f ! k)"
    by auto
  have "\<exists>q. audioQuestion moduleId vocab i = Inr q \<and> ?au q" if "i \<in> set [0 ..< 2]" for i
  proof -
    from that len have "(if i + 8 > length vocab then i else i + 8) < length vocab" by auto
    from audioQuestion_eq [OF this] show ?thesis by auto
  qed
  from for_push_total [where ixs = "[0 ..< 2]" and body = "audioQuestion moduleId vocab"
      and P = ?au and acc = "q1 @ f", OF this]
  obtain a where a: "for_push (audioQuestion moduleId vocab) [0 ..< 2] (q1 @ f) = Inr ((q1 @ f) @ a)"
    "length a = 2" "\<forall>k < 2. ?au (a ! k)"
    by auto
  let ?new = "(q1 @ f) @ a"
  have new: "newQuizzesFor rnd moduleId vocab = Inr ?new"
    unfolding newQuizzesFor_def m by (simp only: q1(1) f(1) a(1) sum.case)
  have lnew: "length ?new = 9"
    using q1(2) f(2) a(2) by simp
  have mods: "\<forall>q \<in> set ?new. q_moduleId q = moduleId"
    using q1(2,3) f(2,3) a(2,3) by (auto simp: in_set_conv_nth)
  let ?keys = "[nextQuizId (database s) ..< nextQuizId (database s) + length ?new]"
  let ?r = "generateQuizForModule rnd moduleId s"
  let ?stored = "qs_quizzes (quizS (snd ?r))"
  note g = generateQuizForModule_stores [OF pool four new mods]
  have 1: "fst ?r = Inr (ReturnedKey (Some (nextQuizId (database s) + 8)))"
    using g(1) lnew by auto
  have 2: "filter (ofModule moduleId) (quizzes (database (snd ?r))) = ?stored"
    using g(2,3) by simp
  have types: "map q_type ?new = replicate 4 ''multiple-choice'' @ replicate 3 ''fill-in-blank''
                                   @ replicate 2 ''audio''"
    using replicate_nth_eq [of q1 4 q_type "''multiple-choice''"]
      replicate_nth_eq [of f 3 q_type "''fill-in-blank''"]
      replicate_nth_eq [of a 2 q_type "''audio''"] q1(2,3) f(2,3) a(2,3)
    by simp
  have "map q_type (map stamp (zip ?keys ?new)) = map q_type ?new"
    by (rule stamped_types) simp
  with types g(2) have 3: "map q_type ?stored = replicate 4 ''multiple-choice''
                             @ replicate 3 ''fill-in-blank'' @ replicate 2 ''audio''"
    by simp
  have "count_where isMultipleChoice ?stored
        = length (filter (\<lambda>t. t = ''multiple-choice'') (map q_type ?stored))"
    by (simp add: count_where_def isMultipleChoice_def [abs_def] filter_map comp_def)
  then have 4: "count_where isMultipleChoice ?stored = 4"
    unfolding 3 by simp
  have 5: "\<exists>opts. options (?stored ! i) = Some opts
                  \<and> answer (?stored ! i) = french (vocab ! i)
                  \<and> length opts = 4 \<and> mset opts = mset (map french vocab)
                  \<and> answer (?stored ! i) \<in> set opts
                  \<and> (distinct (map french vocab) \<longrightarrow>
                        distinct opts \<and> count_list opts (answer (?stored ! i)) = 1)"
    if i: "i < 4" for i
  proof -
    from i len have iv: "i < length vocab" by simp
    from i lnew have sti: "?stored ! i = (?new ! i)\<lparr>q_id := Some (nextQuizId (database s) + i)\<rparr>"
      unfolding g(2) by (intro stamped_nth) simp
    from i q1(2) have newi: "?new ! i = q1 ! i"
      by (simp add: nth_append)
    from i q1(3) have "Inr (q1 ! i) = multipleChoice rnd moduleId vocab i"
      by simp
    also note multipleChoice_eq [OF iv, of rnd moduleId]
    finally have q1i: "q1 ! i = \<lparr>q_id = None, q_moduleId = moduleId, q_type = ''multiple-choice'',
          question = ''Traduisez: '' @ portuguese (vocab ! i),
          options = Some (shuffle_by (rnd (2 * i + 1))
                      (map french (incorrectItems rnd vocab i (vocab ! i)) @ [french (vocab ! i)])),
          answer = french (vocab ! i), q_completed = False\<rparr>"
      by simp
    have st: "options (?stored ! i) = Some (shuffle_by (rnd (2 * i + 1))
                      (map french (incorrectItems rnd vocab i (vocab ! i)) @ [french (vocab ! i)]))"
      "answer (?stored ! i) = french (vocab ! i)"
      unfolding sti newi q1i by simp_all
    note o = options_props [OF four ids iv, of rnd]
    have "image_mset french (add_mset (vocab ! i) (mset (incorrectItems rnd vocab i (vocab ! i))))
          = image_mset french (mset vocab)"
      using incorrectItems_of_four [OF len ids iv, of rnd] by simp
    with o(2) have "mset (shuffle_by (rnd (2 * i + 1))
                      (map french (incorrectItems rnd vocab i (vocab ! i)) @ [french (vocab ! i)]))
                    = mset (map french vocab)"
      by simp
    with st o show ?thesis by simp
  qed
  show ?thesis
    unfolding Let_def using 1 2 3 4 5 by blast
qed

text \<open>
  For the four example words, whose French texts differ, the call returns the key 9,
  the store holds 4 multiple-choice questions, and the first has 4 different options
  among which its answer occurs once.
\<close>

theorem generateQuizForModule_four_witness:
  "filter (inModule 1) (vocabulary (database (app_of (db_of (four_words False)) [])))
     = four_words False
   \<and> length (four_words False) = 4
   \<and> distinct (map v_id (four_words False))
   \<and> distinct (map french (four_words False))
   \<and> fst (generateQuizForModule no_shuffle 1 (app_of (db_of (four_words False)) []))
       = Inr (ReturnedKey (Some 9))
   \<and> count_where isMultipleChoice (qs_quizzes (quizS (snd
         (generateQuizForModule no_shuffle 1 (app_of (db_of (four_words False)) []))))) = 4
   \<and> (\<exists>opts. options (qs_quizzes (quizS (snd
         (generateQuizForModule no_shuffle 1 (app_of (db_of (four_words False)) [])))) ! 0)
           = Some opts
         \<and> length opts = 4 \<and> distinct opts
         \<and> count_list opts (answer (qs_quizzes (quizS (snd
              (generateQuizForModule no_shuffle 1 (app_of (db_of (four_words False)) [])))) ! 0))
            = 1)"
proof -
  let ?stored = "qs_quizzes (quizS (snd
         (generateQuizForModule no_shuffle 1 (app_of (db_of (four_words False)) []))))"
  have h: "filter (inModule 1) (vocabulary (database (app_of (db_of (four_words False)) [])))
             = four_words False"
    "length (four_words False) = 4" "distinct (map v_id (four_words False))"
    by (simp_all add: app_of_def db_of_def four_words_def word_def inModule_def)
  have fr: "distinct (map french (four_words False))"
    by (simp add: four_words_def word_def)
  have n: "nextQuizId (database (app_of (db_of (four_words False)) [])) = 1"
    by (simp add: app_of_def db_of_def)
  note g = generateQuizForModule_four [OF h, of no_shuffle, unfolded Let_def n]
  from g have 1: "fst (generateQuizForModule no_shuffle 1 (app_of (db_of (four_words False)) []))
       = Inr (ReturnedKey (Some 9))"
    by simp
  from g have 2: "count_where isMultipleChoice ?stored = 4"
    by blast
  from g have "\<forall>i < 4. \<exists>opts. options (?stored ! i) = Some opts \<and> length opts = 4
                  \<and> (distinct (map french (four_words False)) \<longrightarrow>
                        distinct opts \<and> count_list opts (answer (?stored ! i)) = 1)"
    by blast
  then have "\<exists>opts. options (?stored ! 0) = Some opts \<and> length opts = 4
                  \<and> (distinct (map french (four_words False)) \<longrightarrow>
                        distinct opts \<and> count_list opts (answer (?stored ! 0)) = 1)"
    by simp
  with fr have 3: "\<exists>opts. options (?stored ! 0) = Some opts \<and> length opts = 4 \<and> distinct opts
                  \<and> count_list opts (answer (?stored ! 0)) = 1"
    by blast
  from h fr 1 2 3 show ?thesis by blast
qed

text \<open>The store does not hold exactly 1 multiple-choice question for a pool of four words.\<close>

theorem generateQuizForModule_four_not_one:
  "length (four_words False) = 4
   \<and> count_where isMultipleChoice (qs_quizzes (quizS (snd
         (generateQuizForModule no_shuffle 1 (app_of (db_of (four_words False)) []))))) \<noteq> 1"
  by code_simp

end
